theory Spec2Isabelle
  imports Main
begin

section \<open>Python values and string operations used by backend/main.py\<close>

text \<open>
  Values that reach the handlers are JSON documents decoded by Python: \<open>None\<close>, booleans,
  integers, floats, strings, lists and dictionaries. A dictionary is an association list
  read with the first binding of a key. Strings are lists of characters; a character is a
  code point below 256, so the whitespace of \<open>str.strip\<close> is the set Python gives for
  that range.
\<close>

datatype pyfloat = Finite int int | Infinite bool | NaN

datatype json =
    JNull
  | JBool bool
  | JInt int
  | JFloat pyfloat
  | JStr string
  | JArr "json list"
  | JObj "(string \<times> json) list"

type_synonym pydict = "(string \<times> json) list"

datatype exn =
    AttributeError
  | TypeError
  | KeyError
  | IndexError
  | Raised string
  | HTTPException nat string

text \<open>
  A \<open>try\<close> block as an expression: the first exception ends it. \<open>as_dict\<close> is the
  receiver of a \<open>.get\<close>, which only a dictionary has.
\<close>

definition and_then :: "exn + 'a \<Rightarrow> ('a \<Rightarrow> exn + 'b) \<Rightarrow> exn + 'b" where
  "and_then m f = (case m of Inl e \<Rightarrow> Inl e | Inr x \<Rightarrow> f x)"

definition as_dict :: "json \<Rightarrow> exn + pydict" where
  "as_dict v = (case v of JObj d \<Rightarrow> Inr d | _ \<Rightarrow> Inl AttributeError)"

text \<open>Truth value of a Python object, as \<open>if x:\<close> and \<open>not x\<close> read it.\<close>

fun truthy :: "json \<Rightarrow> bool" where
  "truthy JNull = False"
| "truthy (JBool b) = b"
| "truthy (JInt n) = (n \<noteq> 0)"
| "truthy (JFloat (Finite m e)) = (m \<noteq> 0)"
| "truthy (JFloat (Infinite s)) = True"
| "truthy (JFloat NaN) = True"
| "truthy (JStr s) = (s \<noteq> [])"
| "truthy (JArr xs) = (xs \<noteq> [])"
| "truthy (JObj d) = (d \<noteq> [])"

text \<open>\<open>x.get(key, default)\<close>: only a dictionary has the method.\<close>

definition dict_get :: "pydict \<Rightarrow> string \<Rightarrow> json \<Rightarrow> json" where
  "dict_get d k dflt = (case map_of d k of None \<Rightarrow> dflt | Some v \<Rightarrow> v)"

fun py_get :: "json \<Rightarrow> string \<Rightarrow> json \<Rightarrow> exn + json" where
  "py_get (JObj d) k dflt = Inr (dict_get d k dflt)"
| "py_get _ k dflt = Inl AttributeError"

text \<open>\<open>x[key]\<close> with a string key.\<close>

fun py_item :: "json \<Rightarrow> string \<Rightarrow> exn + json" where
  "py_item (JObj d) k = (case map_of d k of None \<Rightarrow> Inl KeyError | Some v \<Rightarrow> Inr v)"
| "py_item _ k = Inl TypeError"

text \<open>\<open>x[0]\<close>.\<close>

fun py_index0 :: "json \<Rightarrow> exn + json" where
  "py_index0 (JArr []) = Inl IndexError"
| "py_index0 (JArr (x # xs)) = Inr x"
| "py_index0 (JStr []) = Inl IndexError"
| "py_index0 (JStr (c # cs)) = Inr (JStr [c])"
| "py_index0 (JObj d) = Inl KeyError"
| "py_index0 _ = Inl TypeError"

definition NL :: char where
  "NL = CHR 0x0A"

definition py_isspace :: "char \<Rightarrow> bool" where
  "py_isspace c =
     (let n = (of_char c :: nat)
      in (9 \<le> n \<and> n \<le> 13) \<or> (28 \<le> n \<and> n \<le> 32) \<or> n = 133 \<or> n = 160)"

definition py_strip :: "string \<Rightarrow> string" where
  "py_strip s = rev (dropWhile py_isspace (rev (dropWhile py_isspace s)))"

text \<open>\<open>x.strip()\<close> on a decoded value: only a string has the method.\<close>

fun strip_value :: "json \<Rightarrow> exn + string" where
  "strip_value (JStr s) = Inr (py_strip s)"
| "strip_value _ = Inl AttributeError"

definition startswith :: "string \<Rightarrow> string \<Rightarrow> bool" where
  "startswith s p = (take (length p) s = p)"

definition endswith :: "string \<Rightarrow> string \<Rightarrow> bool" where
  "endswith s p = (length p \<le> length s \<and> drop (length s - length p) s = p)"

text \<open>\<open>s.split(sep)\<close> for a one-character separator: never an empty list.\<close>

fun py_split :: "char \<Rightarrow> string \<Rightarrow> string list" where
  "py_split sep [] = [[]]"
| "py_split sep (c # cs) =
     (if c = sep then [] # py_split sep cs
      else (case py_split sep cs of [] \<Rightarrow> [[c]] | p # ps \<Rightarrow> (c # p) # ps))"

text \<open>\<open>s.split(sep, 1)\<close>: at most one split, at the first separator.\<close>

definition py_split1 :: "char \<Rightarrow> string \<Rightarrow> string list" where
  "py_split1 sep s =
     (case dropWhile (\<lambda>c. c \<noteq> sep) s of
        [] \<Rightarrow> [s]
      | _ # after \<Rightarrow> [takeWhile (\<lambda>c. c \<noteq> sep) s, after])"

text \<open>\<open>xs[1]\<close> on a list.\<close>

fun py_index1 :: "'a list \<Rightarrow> exn + 'a" where
  "py_index1 (x # y # ys) = Inr y"
| "py_index1 _ = Inl IndexError"

text \<open>\<open>sep.join(xs)\<close>.\<close>

fun py_join :: "string \<Rightarrow> string list \<Rightarrow> string" where
  "py_join sep [] = []"
| "py_join sep [x] = x"
| "py_join sep (x # y # ys) = x @ sep @ py_join sep (y # ys)"

section \<open>Text normalizer: \<open>improve_transcript_readability\<close>\<close>

text \<open>
  \<open>re.split(r'(?<=[.!?]) +', text)\<close>: a match starts at a space that directly follows
  one of \<open>.\<close>, \<open>!\<close>, \<open>?\<close> and takes the whole run of spaces; the pieces between the
  matches are returned, the last one possibly empty.
\<close>

definition sentence_end :: "char \<Rightarrow> bool" where
  "sentence_end c = (c = CHR ''.'' \<or> c = CHR ''!'' \<or> c = CHR ''?'')"

function re_split_sentences :: "string \<Rightarrow> string list" where
  "re_split_sentences [] = [[]]"
| "re_split_sentences (c # cs) =
     (if sentence_end c \<and> cs \<noteq> [] \<and> hd cs = CHR '' ''
      then [c] # re_split_sentences (dropWhile (\<lambda>x. x = CHR '' '') cs)
      else (case re_split_sentences cs of [] \<Rightarrow> [[c]] | p # ps \<Rightarrow> (c # p) # ps))"
  by pat_completeness auto
termination
  by (relation "measure length") (auto simp: le_imp_less_Suc length_dropWhile_le)

text \<open>
  The punctuation model is a third-party object: absent when its import failed, and
  otherwise a function on strings that returns the punctuated text or raises.
\<close>

type_synonym punctuation_model = "(string \<Rightarrow> exn + string) option"

definition restore_or_keep :: "punctuation_model \<Rightarrow> string \<Rightarrow> string" where
  "restore_or_keep pm s =
     (case pm of
        None \<Rightarrow> s
      | Some restore_punctuation \<Rightarrow>
          (case restore_punctuation s of Inl e \<Rightarrow> s | Inr punctuated \<Rightarrow> punctuated))"

text \<open>
  The argument is whatever the provider put under \<open>"transcript"\<close>; on a value that is not
  a string \<open>re.split\<close> raises \<open>TypeError\<close> (whatever the punctuation step did with it).
\<close>

fun improve_transcript_readability :: "punctuation_model \<Rightarrow> json \<Rightarrow> exn + string" where
  "improve_transcript_readability pm (JStr s) =
     Inr (py_join [NL] (re_split_sentences (restore_or_keep pm s)))"
| "improve_transcript_readability pm _ = Inl TypeError"

section \<open>Speaker aligner\<close>

record utterance =
  speaker :: string
  utext :: string

text \<open>
  Path (b), lines 453-478: the loop over the lines of the normalized text. \<open>aligned\<close> is
  the list built so far.
\<close>

fun align_lines :: "utterance list \<Rightarrow> string list \<Rightarrow> exn + utterance list" where
  "align_lines aligned [] = Inr aligned"
| "align_lines aligned (l # ls) =
     (let line = py_strip l in
      if line = [] then align_lines aligned ls
      else if startswith line ''AI:'' \<or> startswith line ''Agent:'' then
        (case py_index1 (py_split1 (CHR '':'') line) of
           Inl e \<Rightarrow> Inl e
         | Inr t \<Rightarrow> align_lines (aligned @ [\<lparr>speaker = ''Agent'', utext = py_strip t\<rparr>]) ls)
      else if startswith line ''Human:'' \<or> startswith line ''User:'' then
        (case py_index1 (py_split1 (CHR '':'') line) of
           Inl e \<Rightarrow> Inl e
         | Inr t \<Rightarrow> align_lines (aligned @ [\<lparr>speaker = ''User'', utext = py_strip t\<rparr>]) ls)
      else if aligned = [] then
        align_lines (aligned @ [\<lparr>speaker = ''Agent'', utext = line\<rparr>]) ls
      else
        align_lines
          (aligned @
             [\<lparr>speaker = (if speaker (last aligned) = ''Agent'' then ''User'' else ''Agent''),
               utext = line\<rparr>]) ls)"

definition align_text :: "string \<Rightarrow> exn + utterance list" where
  "align_text improved_transcript = align_lines [] (py_split NL improved_transcript)"

text \<open>
  Path (a) on the provider's call-detail field \<open>transcript_aligned\<close>, lines 425-430:
  the loop builds the sequence and the flat text together.
\<close>

fun align_segments ::
  "utterance list \<Rightarrow> string \<Rightarrow> json list \<Rightarrow> exn + (utterance list \<times> string)" where
  "align_segments aligned concat_transcript [] = Inr (aligned, concat_transcript)"
| "align_segments aligned concat_transcript (segment # rest) =
     (case py_get segment ''from'' JNull of
        Inl e \<Rightarrow> Inl e
      | Inr frm \<Rightarrow>
          (case py_get segment ''text'' (JStr []) of
             Inl e \<Rightarrow> Inl e
           | Inr t \<Rightarrow>
               (case strip_value t of
                  Inl e \<Rightarrow> Inl e
                | Inr txt \<Rightarrow>
                    (let spk = (if frm = JStr ''ai'' then ''Agent'' else ''User'') in
                     if txt \<noteq> [] then
                       align_segments (aligned @ [\<lparr>speaker = spk, utext = txt\<rparr>])
                         (concat_transcript @ spk @ '': '' @ txt @ [NL]) rest
                     else align_segments aligned concat_transcript rest))))"

section \<open>The world outside the process\<close>

text \<open>
  Everything the handlers reach for outside their own code is a field of the world: the
  environment variables, the optional database client and punctuation model, the answers
  of the HTTP services, the row the database returns for a call id, and the library
  functions \<open>json.loads\<close>, \<open>json.dumps\<close>, \<open>format\<close> (of a value that is not a string, in an
  f-string), \<open>str\<close> (of an exception) and the clock.
\<close>

record response =
  status_code :: nat
  body_text :: string
  body_json :: "exn + json"

text \<open>\<open>requests.Response.ok\<close>: no status from 400 to 599.\<close>

definition ok :: "response \<Rightarrow> bool" where
  "ok r = (\<not> (400 \<le> status_code r \<and> status_code r < 600))"

record world =
  BLAND_API_KEY :: "string option"
  GEMINI_API_KEY :: "string option"
  TEXT_KEY :: "string option"
  supabase :: bool
  punctuation_model :: punctuation_model
  requests_get :: "string \<Rightarrow> exn + response"
  post_moderation :: "string \<Rightarrow> string \<Rightarrow> exn + response"
  post_call :: "string \<Rightarrow> string \<Rightarrow> exn + response"
  post_sms :: "string \<Rightarrow> string \<Rightarrow> exn + response"
  select_transcript :: "string \<Rightarrow> exn + json"
  json_loads :: "string \<Rightarrow> exn + json"
  json_dumps :: "json \<Rightarrow> string"
  format_value :: "json \<Rightarrow> string"
  str_exn :: "exn \<Rightarrow> string"
  now :: string

text \<open>\<open>not KEY\<close> for an environment variable: unset or empty.\<close>

definition is_set :: "string option \<Rightarrow> bool" where
  "is_set v = (case v of None \<Rightarrow> False | Some s \<Rightarrow> s \<noteq> [])"

text \<open>A value inside an f-string.\<close>

definition fstr :: "world \<Rightarrow> json \<Rightarrow> string" where
  "fstr w v = (case v of JStr s \<Rightarrow> s | _ \<Rightarrow> format_value w v)"

text \<open>\<open>json.loads(x)\<close> on a decoded value: a string is parsed, anything else is a TypeError.\<close>

definition loads_value :: "world \<Rightarrow> json \<Rightarrow> exn + json" where
  "loads_value w v = (case v of JStr s \<Rightarrow> json_loads w s | _ \<Rightarrow> Inl TypeError)"

text \<open>\<open>for x in v\<close>: a list gives its elements, a dictionary its keys, a string its characters.\<close>

fun iterate :: "json \<Rightarrow> exn + json list" where
  "iterate (JArr xs) = Inr xs"
| "iterate (JObj d) = Inr (map (\<lambda>kv. JStr (fst kv)) d)"
| "iterate (JStr s) = Inr (map (\<lambda>c. JStr [c]) s)"
| "iterate _ = Inl TypeError"

section \<open>Transcript source resolver: \<open>get_call_transcript\<close>\<close>

record transcript_row =
  row_call_id :: json
  row_user_id :: string
  row_transcript :: string
  row_aligned_transcript :: string

datatype event =
    StoreSelect string
  | ProviderGet string
  | StoreUpsert transcript_row
  | StoreInsert transcript_row
  | ModerationPost string string
  | CallPost string string
  | SmsPost string string
  | CallHistoryInsert pydict

datatype outcome =
    Success json json
  | Pending string
  | Unavailable string
  | HTTPError nat string

definition utterance_json :: "utterance \<Rightarrow> json" where
  "utterance_json u = JObj [(''speaker'', JStr (speaker u)), (''text'', JStr (utext u))]"

text \<open>
  Path (a) on the corrected endpoint, lines 384-388: only the flat text is built; the
  segment list itself is returned as the provider sent it.
\<close>

fun concat_corrected :: "world \<Rightarrow> string \<Rightarrow> json list \<Rightarrow> exn + string" where
  "concat_corrected w concat_transcript [] = Inr concat_transcript"
| "concat_corrected w concat_transcript (segment # rest) =
     (case py_get segment ''speaker'' (JStr ''Unknown'') of
        Inl e \<Rightarrow> Inl e
      | Inr spk \<Rightarrow>
          (case py_get segment ''text'' (JStr []) of
             Inl e \<Rightarrow> Inl e
           | Inr t \<Rightarrow>
               (case strip_value t of
                  Inl e \<Rightarrow> Inl e
                | Inr txt \<Rightarrow>
                    concat_corrected w
                      (if txt \<noteq> [] then concat_transcript @ fstr w spk @ '': '' @ txt @ [NL]
                       else concat_transcript) rest)))"

text \<open>The write of a resolved transcript, made only with a database client and a user id.\<close>

definition save_transcript ::
  "world \<Rightarrow> string option \<Rightarrow> (transcript_row \<Rightarrow> event) \<Rightarrow> json \<Rightarrow> string \<Rightarrow> json \<Rightarrow> event list" where
  "save_transcript w user_id write cid flat aligned =
     (case user_id of
        None \<Rightarrow> []
      | Some u \<Rightarrow>
          if supabase w \<and> u \<noteq> [] then
            [write \<lparr>row_call_id = cid, row_user_id = u, row_transcript = flat,
                    row_aligned_transcript = json_dumps w aligned\<rparr>]
          else [])"

text \<open>
  Lines 351-367: the stored transcript, looked up only with a client and a user id. Any
  exception (of the lookup, of \<open>.get\<close> on a row that is no dictionary, of \<open>json.loads\<close>)
  is printed and the live sources are tried.
\<close>

definition stored_transcript ::
  "world \<Rightarrow> string \<Rightarrow> string option \<Rightarrow> outcome option \<times> event list" where
  "stored_transcript w call_id user_id =
     (if supabase w \<and> is_set user_id then
        ((case select_transcript w call_id of
            Inl e \<Rightarrow> None
          | Inr data \<Rightarrow>
              if truthy data then
                (case data of
                   JObj row \<Rightarrow>
                     if truthy (dict_get row ''aligned_transcript'' JNull) then
                       (case loads_value w (dict_get row ''aligned_transcript'' JNull) of
                          Inl e \<Rightarrow> None
                        | Inr v \<Rightarrow> Some (Success (dict_get row ''transcript'' JNull) v))
                     else Some (Success (dict_get row ''transcript'' JNull) JNull)
                 | _ \<Rightarrow> None)
              else None),
         [StoreSelect call_id])
      else (None, []))"

text \<open>Lines 369-406: the provider's corrected transcript.\<close>

definition corrected_url :: "string \<Rightarrow> string" where
  "corrected_url call_id = ''https://api.bland.ai/v1/calls/'' @ call_id @ ''/correct''"

definition bland_url :: "string \<Rightarrow> string" where
  "bland_url call_id = ''https://api.bland.ai/v1/calls/'' @ call_id"

definition corrected_transcript ::
  "world \<Rightarrow> string \<Rightarrow> string option \<Rightarrow> outcome option \<times> event list" where
  "corrected_transcript w call_id user_id =
     (case requests_get w (corrected_url call_id) of
        Inl e \<Rightarrow> (None, [ProviderGet (corrected_url call_id)])
      | Inr corrected_resp \<Rightarrow>
          if ok corrected_resp then
            (case body_json corrected_resp of
               Inl e \<Rightarrow> (None, [ProviderGet (corrected_url call_id)])
             | Inr corrected_data \<Rightarrow>
                 (case py_get corrected_data ''aligned'' JNull of
                    Inl e \<Rightarrow> (None, [ProviderGet (corrected_url call_id)])
                  | Inr aligned \<Rightarrow>
                      if truthy aligned then
                        (case iterate aligned of
                           Inl e \<Rightarrow> (None, [ProviderGet (corrected_url call_id)])
                         | Inr segments \<Rightarrow>
                             (case concat_corrected w [] segments of
                                Inl e \<Rightarrow> (None, [ProviderGet (corrected_url call_id)])
                              | Inr concat_transcript \<Rightarrow>
                                  (Some (Success (JStr concat_transcript) aligned),
                                   ProviderGet (corrected_url call_id) #
                                   save_transcript w user_id StoreUpsert (JStr call_id)
                                     concat_transcript aligned)))
                      else (None, [ProviderGet (corrected_url call_id)])))
          else (None, [ProviderGet (corrected_url call_id)]))"

text \<open>Lines 497-501: the call is still running, or there is no transcript.\<close>

definition pending_or_unavailable :: "pydict \<Rightarrow> outcome" where
  "pending_or_unavailable data =
     (if dict_get data ''status'' JNull = JStr ''in-progress''
         \<or> dict_get data ''completed'' JNull = JBool False
      then Pending ''Call still in progress, transcript not available yet''
      else Unavailable ''Transcript not available for this call'')"

text \<open>
  Lines 418-501, after the call-detail response was decoded. The first \<open>data.get\<close> raises
  on a document that is no dictionary. An exception leaves through \<open>Inl\<close>; the handler
  turns it into the 500 answer.
\<close>

definition resolve_detail ::
  "world \<Rightarrow> string option \<Rightarrow> json \<Rightarrow> exn + (outcome \<times> event list)" where
  "resolve_detail w user_id response_json =
     (case response_json of
        JObj data \<Rightarrow>
          if truthy (dict_get data ''transcript_aligned'' JNull) then
            (case iterate (dict_get data ''transcript_aligned'' JNull) of
               Inl e \<Rightarrow> Inl e
             | Inr segments \<Rightarrow>
                 (case align_segments [] [] segments of
                    Inl e \<Rightarrow> Inl e
                  | Inr (aligned, concat_transcript) \<Rightarrow>
                      Inr (Success (JStr concat_transcript) (JArr (map utterance_json aligned)),
                           save_transcript w user_id StoreInsert (dict_get data ''call_id'' JNull)
                             concat_transcript (JArr (map utterance_json aligned)))))
          else if truthy (dict_get data ''transcript'' JNull) then
            (case improve_transcript_readability (punctuation_model w)
                    (dict_get data ''transcript'' JNull) of
               Inl e \<Rightarrow> Inl e
             | Inr improved_transcript \<Rightarrow>
                 (case align_text improved_transcript of
                    Inl e \<Rightarrow> Inr (pending_or_unavailable data, [])
                  | Inr aligned \<Rightarrow>
                      if aligned \<noteq> [] then
                        Inr (Success (JStr improved_transcript) (JArr (map utterance_json aligned)),
                             save_transcript w user_id StoreInsert (dict_get data ''call_id'' JNull)
                               improved_transcript (JArr (map utterance_json aligned)))
                      else Inr (pending_or_unavailable data, [])))
          else Inr (pending_or_unavailable data, [])
      | _ \<Rightarrow> Inl AttributeError)"

text \<open>Lines 408-503: the call-detail request and the handler around \<open>resolve_detail\<close>.\<close>

definition transcript_error :: "world \<Rightarrow> exn \<Rightarrow> outcome" where
  "transcript_error w e = HTTPError 500 (''Error getting call transcript: '' @ str_exn w e)"

definition regular_transcript ::
  "world \<Rightarrow> string \<Rightarrow> string option \<Rightarrow> outcome \<times> event list" where
  "regular_transcript w call_id user_id =
     (case requests_get w (bland_url call_id) of
        Inl e \<Rightarrow> (transcript_error w e, [ProviderGet (bland_url call_id)])
      | Inr resp \<Rightarrow>
          if \<not> ok resp then
            (transcript_error w
               (HTTPException (status_code resp)
                  (''Failed to get call transcript: '' @ body_text resp)),
             [ProviderGet (bland_url call_id)])
          else
            (case body_json resp of
               Inl e \<Rightarrow> (transcript_error w e, [ProviderGet (bland_url call_id)])
             | Inr data \<Rightarrow>
                 (case resolve_detail w user_id data of
                    Inl e \<Rightarrow> (transcript_error w e, [ProviderGet (bland_url call_id)])
                  | Inr (out, evs) \<Rightarrow> (out, ProviderGet (bland_url call_id) # evs))))"

definition get_call_transcript ::
  "world \<Rightarrow> string \<Rightarrow> string option \<Rightarrow> outcome \<times> event list" where
  "get_call_transcript w call_id user_id =
     (if \<not> is_set (BLAND_API_KEY w) then
        (HTTPError 500 ''BLAND_API_KEY not set in environment.'', [])
      else
        (case stored_transcript w call_id user_id of
           (Some out, evs) \<Rightarrow> (out, evs)
         | (None, evs) \<Rightarrow>
             (case corrected_transcript w call_id user_id of
                (Some out, evs2) \<Rightarrow> (out, evs @ evs2)
              | (None, evs2) \<Rightarrow>
                  (case regular_transcript w call_id user_id of
                     (out, evs3) \<Rightarrow> (out, evs @ evs2 @ evs3)))))"

section \<open>The second transcript endpoint: \<open>get_call_corrected_transcript\<close>\<close>

text \<open>
  Lines 699-857, translated on their own: each \<open>try\<close> block is an expression in the
  exception monad (\<open>and_then\<close>), and the handler reads their results in turn.
\<close>

text \<open>Lines 705-721.\<close>

definition stored_row ::
  "world \<Rightarrow> string \<Rightarrow> string option \<Rightarrow> exn + outcome option" where
  "stored_row w call_id user_id =
     (if supabase w \<and> is_set user_id then
        and_then (select_transcript w call_id) (\<lambda>data.
          if truthy data then
            and_then (as_dict data) (\<lambda>row.
              if truthy (dict_get row ''aligned_transcript'' JNull) then
                and_then (loads_value w (dict_get row ''aligned_transcript'' JNull))
                  (\<lambda>v. Inr (Some (Success (dict_get row ''transcript'' JNull) v)))
              else Inr (Some (Success (dict_get row ''transcript'' JNull) JNull)))
          else Inr None)
      else Inr None)"

text \<open>Lines 723-760.\<close>

definition corrected_segments :: "world \<Rightarrow> string \<Rightarrow> exn + (string \<times> json) option" where
  "corrected_segments w call_id =
     and_then (requests_get w (corrected_url call_id)) (\<lambda>corrected_resp.
       if ok corrected_resp then
         and_then (body_json corrected_resp) (\<lambda>corrected_data.
         and_then (py_get corrected_data ''aligned'' JNull) (\<lambda>aligned.
           if truthy aligned then
             and_then (iterate aligned) (\<lambda>segments.
             and_then (concat_corrected w [] segments) (\<lambda>concat_transcript.
               Inr (Some (concat_transcript, aligned))))
           else Inr None))
       else Inr None)"

text \<open>Lines 762-855.\<close>

definition call_detail ::
  "world \<Rightarrow> string \<Rightarrow> string option \<Rightarrow> exn + (outcome \<times> event list)" where
  "call_detail w call_id user_id =
     and_then (requests_get w (bland_url call_id)) (\<lambda>resp.
       if \<not> ok resp then
         Inl (HTTPException (status_code resp)
                (''Failed to get call transcript: '' @ body_text resp))
       else
         and_then (body_json resp) (\<lambda>response_json.
         and_then (as_dict response_json) (\<lambda>data.
           if truthy (dict_get data ''transcript_aligned'' JNull) then
             and_then (iterate (dict_get data ''transcript_aligned'' JNull)) (\<lambda>segments.
             and_then (align_segments [] [] segments) (\<lambda>built.
               Inr (Success (JStr (snd built)) (JArr (map utterance_json (fst built))),
                    save_transcript w user_id StoreInsert (dict_get data ''call_id'' JNull)
                      (snd built) (JArr (map utterance_json (fst built))))))
           else
             and_then
               (if truthy (dict_get data ''transcript'' JNull) then
                  and_then
                    (improve_transcript_readability (punctuation_model w)
                       (dict_get data ''transcript'' JNull))
                    (\<lambda>improved_transcript.
                       case align_text improved_transcript of
                         Inr aligned \<Rightarrow>
                           if aligned \<noteq> [] then
                             Inr (Some
                               (Success (JStr improved_transcript)
                                  (JArr (map utterance_json aligned)),
                                save_transcript w user_id StoreInsert
                                  (dict_get data ''call_id'' JNull) improved_transcript
                                  (JArr (map utterance_json aligned))))
                           else Inr None
                       | Inl e \<Rightarrow> Inr None)
                else Inr None)
               (\<lambda>resolved.
                  case resolved of
                    Some answer \<Rightarrow> Inr answer
                  | None \<Rightarrow>
                      if dict_get data ''status'' JNull = JStr ''in-progress''
                         \<or> dict_get data ''completed'' JNull = JBool False
                      then Inr (Pending ''Call still in progress, transcript not available yet'', [])
                      else Inr (Unavailable ''Transcript not available for this call'', [])))))"

definition get_call_corrected_transcript ::
  "world \<Rightarrow> string \<Rightarrow> string option \<Rightarrow> outcome \<times> event list" where
  "get_call_corrected_transcript w call_id user_id =
     (if \<not> is_set (BLAND_API_KEY w) then
        (HTTPError 500 ''BLAND_API_KEY not set in environment.'', [])
      else
        (let looked_up = (if supabase w \<and> is_set user_id then [StoreSelect call_id] else [])
         in case stored_row w call_id user_id of
              Inr (Some out) \<Rightarrow> (out, looked_up)
            | _ \<Rightarrow>
               (case corrected_segments w call_id of
                  Inr (Some (concat_transcript, aligned)) \<Rightarrow>
                    (Success (JStr concat_transcript) aligned,
                     looked_up @ [ProviderGet (corrected_url call_id)] @
                     save_transcript w user_id StoreUpsert (JStr call_id)
                       concat_transcript aligned)
                | _ \<Rightarrow>
                   (case call_detail w call_id user_id of
                      Inl e \<Rightarrow>
                        (HTTPError 500 (''Error getting call transcript: '' @ str_exn w e),
                         looked_up @ [ProviderGet (corrected_url call_id),
                                      ProviderGet (bland_url call_id)])
                    | Inr (out, evs) \<Rightarrow>
                        (out,
                         looked_up @ [ProviderGet (corrected_url call_id),
                                      ProviderGet (bland_url call_id)] @ evs)))))"

section \<open>Moderation: \<open>moderate_call\<close>\<close>

definition emergency_numbers :: "string list" where
  "emergency_numbers = [''911'', ''999'', ''112'', ''000'']"

text \<open>
  \<open>re.search(r'\{.*\}', text)\<close>: the first opening brace that has a closing brace later on
  the same line (\<open>.\<close> does not match a newline), up to the last closing brace of that line.
\<close>

fun search_braces :: "string \<Rightarrow> string option" where
  "search_braces [] = None"
| "search_braces (c # cs) =
     (if c = CHR ''{'' \<and> CHR ''}'' \<in> set (takeWhile (\<lambda>x. x \<noteq> NL) cs)
      then Some (c # rev (dropWhile (\<lambda>x. x \<noteq> CHR ''}'') (rev (takeWhile (\<lambda>x. x \<noteq> NL) cs))))
      else search_braces cs)"

text \<open>
  \<open>result.get('candidates', [{}])[0].get('content', {}).get('parts', [{}])[0].get('text', '')\<close>
\<close>

definition moderation_text :: "json \<Rightarrow> exn + json" where
  "moderation_text result =
     and_then (py_get result ''candidates'' (JArr [JObj []])) (\<lambda>candidates.
     and_then (py_index0 candidates) (\<lambda>candidate.
     and_then (py_get candidate ''content'' (JObj [])) (\<lambda>content.
     and_then (py_get content ''parts'' (JArr [JObj []])) (\<lambda>parts.
     and_then (py_index0 parts) (\<lambda>part.
     py_get part ''text'' (JStr []))))))"

definition verdict :: "bool \<Rightarrow> string \<Rightarrow> json" where
  "verdict allowed reason = JObj [(''allowed'', JBool allowed), (''reason'', JStr reason)]"

definition moderation_error :: "world \<Rightarrow> exn \<Rightarrow> json" where
  "moderation_error w e = verdict True (''Moderation error: '' @ str_exn w e)"

definition moderate_call :: "world \<Rightarrow> string \<Rightarrow> string \<Rightarrow> json \<times> event list" where
  "moderate_call w topic phone_number =
     (if phone_number \<noteq> [] \<and> (\<exists>num \<in> set emergency_numbers. endswith phone_number num) then
        (verdict False ''Emergency services number detected'', [])
      else if \<not> is_set (GEMINI_API_KEY w) then (verdict True [], [])
      else
        ((case post_moderation w phone_number topic of
            Inl e \<Rightarrow> moderation_error w e
          | Inr response \<Rightarrow>
              if status_code response \<noteq> 200 then verdict True ''Moderation service unavailable''
              else
                (case body_json response of
                   Inl e \<Rightarrow> moderation_error w e
                 | Inr result \<Rightarrow>
                     (case moderation_text result of
                        Inl e \<Rightarrow> moderation_error w e
                      | Inr (JStr s) \<Rightarrow>
                          (case search_braces s of
                             None \<Rightarrow> verdict True ''Could not parse moderation response''
                           | Some m \<Rightarrow>
                               (case json_loads w m of
                                  Inl e \<Rightarrow> verdict True ''Could not parse moderation response''
                                | Inr moderation \<Rightarrow> moderation))
                      | Inr _ \<Rightarrow> moderation_error w TypeError))),
         [ModerationPost phone_number topic]))"

section \<open>Admission and placement: \<open>trigger_call\<close> and \<open>send_sms\<close>\<close>

definition MAX_CALLS_PER_GUEST :: int where
  "MAX_CALLS_PER_GUEST = 10"

definition MAX_CALLS_PER_USER :: int where
  "MAX_CALLS_PER_USER = 5"

record call_request =
  call_phone_number :: string
  call_topic :: string
  call_admin :: "bool option"
  call_user_id :: "string option"

record sms_request =
  sms_phone_number :: string
  sms_message :: string
  sms_admin :: "bool option"
  sms_user_id :: "string option"

text \<open>The process-wide \<open>call_history\<close>: phone number to the list of records, oldest first.\<close>

type_synonym history = "string \<Rightarrow> pydict list option"

datatype calls_left = Left int | Unlimited

datatype call_outcome =
    Message string
  | Triggered json calls_left
  | CallHTTPError nat string
  | Unhandled exn

datatype sms_outcome =
    SmsMessage string
  | SmsSent json json
  | SmsHTTPError nat string

text \<open>\<open>call_history.get(phone, [])\<close>, and the append that creates a missing entry first.\<close>

definition records_of :: "history \<Rightarrow> string \<Rightarrow> pydict list" where
  "records_of call_history phone = (case call_history phone of None \<Rightarrow> [] | Some rs \<Rightarrow> rs)"

definition append_record :: "history \<Rightarrow> string \<Rightarrow> pydict \<Rightarrow> history" where
  "append_record call_history phone r = call_history(phone \<mapsto> records_of call_history phone @ [r])"

text \<open>Lines 148-161: the quota and what is left of it.\<close>

definition max_calls :: "call_request \<Rightarrow> int" where
  "max_calls req = (if is_set (call_user_id req) then MAX_CALLS_PER_USER else MAX_CALLS_PER_GUEST)"

definition current_calls :: "pydict list \<Rightarrow> int" where
  "current_calls phone_history =
     int (length (filter (\<lambda>c. map_of c ''status'' = Some (JStr ''success'')) phone_history))"

definition calls_left :: "call_request \<Rightarrow> history \<Rightarrow> int" where
  "calls_left req call_history =
     max_calls req - current_calls (records_of call_history (call_phone_number req))"

definition call_error :: "world \<Rightarrow> exn \<Rightarrow> call_outcome" where
  "call_error w e = CallHTTPError 500 (''Error calling Bland.ai: '' @ str_exn w e)"

text \<open>Lines 166-247: the request to the provider and the record of its result.\<close>

definition place_call ::
  "world \<Rightarrow> call_request \<Rightarrow> history \<Rightarrow> call_outcome \<times> history \<times> event list" where
  "place_call w req call_history =
     (case post_call w (call_phone_number req) (call_topic req) of
        Inl e \<Rightarrow> (call_error w e, call_history, [CallPost (call_phone_number req) (call_topic req)])
      | Inr resp \<Rightarrow>
          if ok resp then
            (case and_then (body_json resp) (\<lambda>data. py_get data ''call_id'' JNull) of
               Inl e \<Rightarrow> (call_error w e, call_history, [CallPost (call_phone_number req) (call_topic req)])
             | Inr call_id \<Rightarrow>
                 (Triggered call_id
                    (if call_admin req = Some True then Unlimited else Left (calls_left req call_history)),
                  append_record call_history (call_phone_number req)
                    [(''topic'', JStr (call_topic req)), (''summary'', JStr (call_topic req)),
                     (''status'', JStr ''success''), (''timestamp'', JStr (now w)),
                     (''call_id'', call_id)],
                  CallPost (call_phone_number req) (call_topic req) #
                  (case call_user_id req of
                     None \<Rightarrow> []
                   | Some u \<Rightarrow>
                       if supabase w \<and> u \<noteq> [] then
                         [CallHistoryInsert
                            [(''user_id'', JStr u), (''phone_number'', JStr (call_phone_number req)),
                             (''call_time'', JStr (now w)), (''call_id'', call_id),
                             (''topic'', JStr (call_topic req)), (''summary'', JStr (call_topic req))]]
                       else [])))
          else
            (call_error w (HTTPException 500 (''Bland.ai call failed: '' @ body_text resp)),
             append_record call_history (call_phone_number req)
               [(''topic'', JStr (call_topic req)), (''status'', JStr ''error''),
                (''timestamp'', JStr (now w)), (''error'', JStr (body_text resp))],
             [CallPost (call_phone_number req) (call_topic req)]))"

text \<open>Lines 148-164 and the call of \<open>place_call\<close>.\<close>

definition admit_call ::
  "world \<Rightarrow> call_request \<Rightarrow> history \<Rightarrow> call_outcome \<times> history \<times> event list" where
  "admit_call w req call_history =
     (if calls_left req call_history \<le> 0 \<and> call_admin req \<noteq> Some True then
        (Message ''You have reached the maximum number of calls.'', call_history, [])
      else place_call w req call_history)"

definition trigger_call ::
  "world \<Rightarrow> call_request \<Rightarrow> history \<Rightarrow> call_outcome \<times> history \<times> event list" where
  "trigger_call w req call_history =
     (if \<not> is_set (BLAND_API_KEY w) then
        (CallHTTPError 500 ''BLAND_API_KEY not set in environment.'', call_history, [])
      else if call_admin req \<noteq> Some True then
        (case moderate_call w (call_topic req) (call_phone_number req) of
           (moderation_result, evs) \<Rightarrow>
             (case py_item moderation_result ''allowed'' of
                Inl e \<Rightarrow> (Unhandled e, call_history, evs)
              | Inr allowed \<Rightarrow>
                  if \<not> truthy allowed then
                    (case py_item moderation_result ''reason'' of
                       Inl e \<Rightarrow> (Unhandled e, call_history, evs)
                     | Inr reason \<Rightarrow>
                         (Message (''Call topic or phone number rejected by moderation: '' @
                                   fstr w reason),
                          call_history, evs))
                  else
                    (case admit_call w req call_history of
                       (out, h, evs2) \<Rightarrow> (out, h, evs @ evs2))))
      else admit_call w req call_history)"

text \<open>Lines 859-952.\<close>

definition sms_record :: "world \<Rightarrow> string \<Rightarrow> string \<Rightarrow> string \<Rightarrow> json \<Rightarrow> pydict" where
  "sms_record w phone status extra_key extra =
     [(''type'', JStr ''sms''), (''status'', JStr status), (''timestamp'', JStr (now w)),
      (''phone_number'', JStr phone), (extra_key, extra)]"

definition sms_exception :: "world \<Rightarrow> string \<Rightarrow> history \<Rightarrow> exn \<Rightarrow> sms_outcome \<times> history" where
  "sms_exception w phone call_history e =
     (SmsHTTPError 500 (''Error sending SMS: '' @ str_exn w e),
      append_record call_history phone
        (sms_record w phone ''exception'' ''error'' (JStr (str_exn w e))))"

text \<open>
  Lines 900-952. The four \<open>data.get\<close> of the two branches are read together: once the
  first succeeds \<open>data\<close> is a dictionary and the others cannot raise. A refused SMS raises
  the 400 inside the \<open>try\<close>, so the handler below records it a second time.
\<close>

definition deliver_sms ::
  "world \<Rightarrow> sms_request \<Rightarrow> history \<Rightarrow> sms_outcome \<times> history \<times> event list" where
  "deliver_sms w req call_history =
     (case (case and_then (and_then (post_sms w (sms_phone_number req) (sms_message req)) body_json)
                  (\<lambda>data. and_then (py_get data ''success'' JNull) (\<lambda>success.
                     and_then (py_get data ''textId'' JNull) (\<lambda>text_id.
                     and_then (py_get data ''quotaRemaining'' JNull) (\<lambda>quota.
                     and_then (py_get data ''error'' JNull) (\<lambda>err.
                       Inr (success, text_id, quota, err)))))) of
              Inl e \<Rightarrow> sms_exception w (sms_phone_number req) call_history e
            | Inr (success, text_id, quota, err) \<Rightarrow>
                if truthy success then
                  (SmsSent quota text_id,
                   append_record call_history (sms_phone_number req)
                     (sms_record w (sms_phone_number req) ''success'' ''message_id'' text_id))
                else
                  sms_exception w (sms_phone_number req)
                    (append_record call_history (sms_phone_number req)
                       (sms_record w (sms_phone_number req) ''error'' ''error'' err))
                    (HTTPException 400 (''Failed to send SMS: '' @ fstr w err))) of
        (out, h) \<Rightarrow> (out, h, [SmsPost (sms_phone_number req) (sms_message req)]))"

definition sms_sent_count :: "pydict list \<Rightarrow> nat" where
  "sms_sent_count items = length (filter (\<lambda>item. map_of item ''type'' = Some (JStr ''sms'')) items)"

definition max_sms :: "sms_request \<Rightarrow> nat" where
  "max_sms req = (if is_set (sms_user_id req) then 10 else 3)"

definition send_sms ::
  "world \<Rightarrow> sms_request \<Rightarrow> history \<Rightarrow> sms_outcome \<times> history \<times> event list" where
  "send_sms w req call_history =
     (if \<not> is_set (TEXT_KEY w) then
        (SmsHTTPError 500 ''TEXT_KEY not set in environment.'', call_history, [])
      else if sms_admin req \<noteq> Some True then
        (let h = (if call_history (sms_phone_number req) = None
                  then call_history(sms_phone_number req \<mapsto> []) else call_history) in
         if max_sms req \<le> sms_sent_count (records_of h (sms_phone_number req)) then
           (SmsMessage (''You have reached the maximum number of SMS messages ('' @
                        (if is_set (sms_user_id req) then ''10'' else ''3'') @ '').''),
            h, [])
         else deliver_sms w req h)
      else deliver_sms w req call_history)"

section \<open>What the specification says, as functions\<close>

text \<open>
  The flat rendering of section 4.2 of the specification: \<open>"{speaker}: {text}\n"\<close> for
  each utterance, concatenated.
\<close>

definition render :: "utterance list \<Rightarrow> string" where
  "render us = concat (map (\<lambda>u. speaker u @ '': '' @ utext u @ [NL]) us)"

text \<open>
  A provider segment as section 4.2(a) reads it: its text after trimming (empty when the
  segment carries no string under \<open>"text"\<close>), its speaker tag on the corrected endpoint, and
  the utterance it maps to on the call-detail endpoint (\<open>"ai"\<close> is the agent, anything else
  the user).
\<close>

definition segment_text :: "json \<Rightarrow> string" where
  "segment_text segment =
     (case and_then (py_get segment ''text'' (JStr [])) strip_value of
        Inl e \<Rightarrow> []
      | Inr t \<Rightarrow> t)"

definition segment_speaker :: "json \<Rightarrow> json" where
  "segment_speaker segment =
     (case py_get segment ''speaker'' (JStr ''Unknown'') of Inl e \<Rightarrow> JNull | Inr v \<Rightarrow> v)"

definition segment_utterance :: "json \<Rightarrow> utterance" where
  "segment_utterance segment =
     \<lparr>speaker = (if py_get segment ''from'' JNull = Inr (JStr ''ai'') then ''Agent'' else ''User''),
      utext = segment_text segment\<rparr>"

definition spoken :: "json list \<Rightarrow> json list" where
  "spoken segments = filter (\<lambda>segment. segment_text segment \<noteq> []) segments"

definition render_segments :: "world \<Rightarrow> json list \<Rightarrow> string" where
  "render_segments w segments =
     concat (map (\<lambda>segment. fstr w (segment_speaker segment) @ '': '' @ segment_text segment @ [NL])
               (spoken segments))"

text \<open>
  The rendering of a returned sequence as it stands, nothing trimmed and nothing dropped:
  \<open>"{speaker}: {text}\n"\<close> over the \<open>speaker\<close> and \<open>text\<close> entries of each element.
\<close>

definition render_returned :: "world \<Rightarrow> json list \<Rightarrow> string" where
  "render_returned w segments =
     concat (map (\<lambda>segment.
                    (case segment of
                       JObj d \<Rightarrow> fstr w (dict_get d ''speaker'' JNull) @ '': '' @
                                 fstr w (dict_get d ''text'' JNull) @ [NL]
                     | _ \<Rightarrow> []))
               segments)"

text \<open>
  The alternation rule of section 4.2(b), line by line: \<open>prev\<close> is the speaker of the
  utterance before, if there is one.
\<close>

definition opposite :: "string \<Rightarrow> string" where
  "opposite s = (if s = ''Agent'' then ''User'' else ''Agent'')"

fun spec_align :: "string option \<Rightarrow> string list \<Rightarrow> utterance list" where
  "spec_align prev [] = []"
| "spec_align prev (l # ls) =
     (let line = py_strip l in
      if line = [] then spec_align prev ls
      else if startswith line ''AI:'' then
        \<lparr>speaker = ''Agent'', utext = py_strip (drop 3 line)\<rparr> # spec_align (Some ''Agent'') ls
      else if startswith line ''Agent:'' then
        \<lparr>speaker = ''Agent'', utext = py_strip (drop 6 line)\<rparr> # spec_align (Some ''Agent'') ls
      else if startswith line ''Human:'' then
        \<lparr>speaker = ''User'', utext = py_strip (drop 6 line)\<rparr> # spec_align (Some ''User'') ls
      else if startswith line ''User:'' then
        \<lparr>speaker = ''User'', utext = py_strip (drop 5 line)\<rparr> # spec_align (Some ''User'') ls
      else
        (case prev of
           None \<Rightarrow> \<lparr>speaker = ''Agent'', utext = line\<rparr> # spec_align (Some ''Agent'') ls
         | Some p \<Rightarrow>
             \<lparr>speaker = opposite p, utext = line\<rparr> # spec_align (Some (opposite p)) ls))"

definition last_speaker :: "utterance list \<Rightarrow> string option" where
  "last_speaker aligned = (if aligned = [] then None else Some (speaker (last aligned)))"

text \<open>What a run wrote to the transcript table: the flat text and the serialised sequence.\<close>

fun persisted :: "event list \<Rightarrow> (string \<times> string) list" where
  "persisted [] = []"
| "persisted (StoreUpsert r # evs) = (row_transcript r, row_aligned_transcript r) # persisted evs"
| "persisted (StoreInsert r # evs) = (row_transcript r, row_aligned_transcript r) # persisted evs"
| "persisted (_ # evs) = persisted evs"

text \<open>The requests a run made to the call provider for a transcript.\<close>

fun provider_gets :: "event list \<Rightarrow> string list" where
  "provider_gets [] = []"
| "provider_gets (ProviderGet url # evs) = url # provider_gets evs"
| "provider_gets (_ # evs) = provider_gets evs"

text \<open>The two messages of lines 499 and 501, and the test of line 498.\<close>

definition pending_message :: string where
  "pending_message = ''Call still in progress, transcript not available yet''"

definition unavailable_message :: string where
  "unavailable_message = ''Transcript not available for this call''"

text \<open>The four kinds of answer the transcript handlers give.\<close>

definition one_of_four :: "outcome \<Rightarrow> bool" where
  "one_of_four out =
     (case out of
        Success t a \<Rightarrow> True
      | Pending m \<Rightarrow> m = pending_message
      | Unavailable m \<Rightarrow> m = unavailable_message
      | HTTPError code detail \<Rightarrow> code = 500)"

definition in_progress :: "pydict \<Rightarrow> bool" where
  "in_progress data =
     (dict_get data ''status'' JNull = JStr ''in-progress'' \<or>
      dict_get data ''completed'' JNull = JBool False)"

text \<open>
  The sentence split of section 4.1 as one pass over the text: every run of spaces that
  directly follows \<open>.\<close>, \<open>!\<close> or \<open>?\<close> becomes one newline, and nothing else changes.
  \<open>boundaries\<close> counts the places where that happens.
\<close>

fun boundaries :: "string \<Rightarrow> nat" where
  "boundaries [] = 0"
| "boundaries (c # cs) =
     (if sentence_end c \<and> cs \<noteq> [] \<and> hd cs = CHR '' '' then 1 else 0) + boundaries cs"

function break_sentences :: "string \<Rightarrow> string" where
  "break_sentences [] = []"
| "break_sentences (c # cs) =
     (if sentence_end c \<and> cs \<noteq> [] \<and> hd cs = CHR '' ''
      then c # NL # break_sentences (dropWhile (\<lambda>x. x = CHR '' '') cs)
      else c # break_sentences cs)"
  by pat_completeness auto
termination
  by (relation "measure length") (auto simp: le_imp_less_Suc length_dropWhile_le)

text \<open>
  Modelled from the spec: the hosted data store behind \<open>supabase.table("call_transcript")\<close>,
  which is no code of this repository. Section 6 of the specification describes it as a
  keyed insert, upsert and select, the transcript kept "keyed by call id for future cache
  hits". The table is the list of its rows; an insert adds a row, an upsert replaces the
  rows of the same call id or adds one, every write succeeds, and the lookup
  \<open>.eq("call_id", call_id).single()\<close> returns the one row of that call id as a dictionary
  and raises when there is none or more than one. \<open>written\<close> and \<open>store_selects\<close> read
  the rows written and the lookups made off the events of a run.
\<close>

type_synonym transcript_table = "transcript_row list"

definition row_dict :: "transcript_row \<Rightarrow> pydict" where
  "row_dict r =
     [(''call_id'', row_call_id r), (''user_id'', JStr (row_user_id r)),
      (''transcript'', JStr (row_transcript r)),
      (''aligned_transcript'', JStr (row_aligned_transcript r))]"

definition lookup_single :: "transcript_table \<Rightarrow> string \<Rightarrow> exn + json" where
  "lookup_single tbl call_id =
     (case filter (\<lambda>r. row_call_id r = JStr call_id) tbl of
        [r] \<Rightarrow> Inr (JObj (row_dict r))
      | _ \<Rightarrow> Inl (Raised ''single row expected''))"

fun apply_event :: "event \<Rightarrow> transcript_table \<Rightarrow> transcript_table" where
  "apply_event (StoreInsert r) tbl = tbl @ [r]"
| "apply_event (StoreUpsert r) tbl =
     (if \<exists>x \<in> set tbl. row_call_id x = row_call_id r
      then map (\<lambda>x. if row_call_id x = row_call_id r then r else x) tbl
      else tbl @ [r])"
| "apply_event _ tbl = tbl"

definition apply_events :: "event list \<Rightarrow> transcript_table \<Rightarrow> transcript_table" where
  "apply_events evs tbl = fold apply_event evs tbl"

definition with_table :: "world \<Rightarrow> transcript_table \<Rightarrow> world" where
  "with_table w tbl = w\<lparr>select_transcript := lookup_single tbl\<rparr>"

fun written :: "event list \<Rightarrow> transcript_row list" where
  "written [] = []"
| "written (StoreUpsert r # evs) = r # written evs"
| "written (StoreInsert r # evs) = r # written evs"
| "written (_ # evs) = written evs"

fun store_selects :: "event list \<Rightarrow> string list" where
  "store_selects [] = []"
| "store_selects (StoreSelect c # evs) = c # store_selects evs"
| "store_selects (_ # evs) = store_selects evs"

section \<open>Example worlds\<close>

definition unreachable :: "exn + 'a" where
  "unreachable = Inl (Raised ''connection refused'')"

definition base_world :: world where
  "base_world =
     \<lparr>BLAND_API_KEY = Some ''bland-key'', GEMINI_API_KEY = None, TEXT_KEY = Some ''text-key'',
      supabase = False, punctuation_model = None,
      requests_get = (\<lambda>url. unreachable),
      post_moderation = (\<lambda>phone t. unreachable),
      post_call = (\<lambda>phone t. unreachable),
      post_sms = (\<lambda>phone m. unreachable),
      select_transcript = (\<lambda>call_id. Inl (Raised ''no rows'')),
      json_loads = (\<lambda>s. Inl (Raised ''JSONDecodeError'')),
      json_dumps = (\<lambda>v. ''<json>''),
      format_value = (\<lambda>v. ''<value>''),
      str_exn = (\<lambda>e. ''<exception>''),
      now = ''2025-01-01T00:00:00''\<rparr>"

definition json_response :: "json \<Rightarrow> response" where
  "json_response v = \<lparr>status_code = 200, body_text = [], body_json = Inr v\<rparr>"

definition segment :: "string \<Rightarrow> string \<Rightarrow> string \<Rightarrow> json" where
  "segment tag who said = JObj [(tag, JStr who), (''text'', JStr said)]"

text \<open>A segment the loops of path (a) accept: a dictionary whose \<open>"text"\<close> is a string.\<close>

definition segment_ok :: "json \<Rightarrow> bool" where
  "segment_ok s =
     (case s of
        JObj d \<Rightarrow> (case dict_get d ''text'' (JStr []) of JStr t \<Rightarrow> True | _ \<Rightarrow> False)
      | _ \<Rightarrow> False)"

definition hello_segments :: "string \<Rightarrow> json list" where
  "hello_segments tag =
     [segment tag ''ai'' '' Hello '', segment tag ''human'' ''  '', segment tag ''human'' ''Hi'']"

definition corrected_world :: world where
  "corrected_world =
     base_world\<lparr>requests_get :=
       (\<lambda>url. if url = corrected_url ''c1''
              then Inr (json_response (JObj [(''aligned'', JArr (hello_segments ''speaker''))]))
              else unreachable)\<rparr>"

definition aligned_world :: world where
  "aligned_world =
     base_world\<lparr>supabase := True,
       requests_get :=
       (\<lambda>url. if url = bland_url ''c1''
              then Inr (json_response
                     (JObj [(''call_id'', JStr ''c1''),
                            (''transcript_aligned'', JArr (hello_segments ''from''))]))
              else unreachable)\<rparr>"

definition flat_world :: world where
  "flat_world =
     base_world\<lparr>requests_get :=
       (\<lambda>url. if url = bland_url ''c1''
              then Inr (json_response
                     (JObj [(''call_id'', JStr ''c1''),
                            (''transcript'', JStr ''Hello there. How can I help? I need a refund.'')]))
              else unreachable)\<rparr>"

definition hello_flat :: string where
  "hello_flat = ''Agent: Hello'' @ [NL] @ ''User: Hi'' @ [NL]"

definition hello_utterances :: "utterance list" where
  "hello_utterances =
     [\<lparr>speaker = ''Agent'', utext = ''Hello''\<rparr>, \<lparr>speaker = ''User'', utext = ''Hi''\<rparr>]"

definition hello_events :: "event list" where
  "hello_events =
     [StoreSelect ''c1'', ProviderGet (corrected_url ''c1''), ProviderGet (bland_url ''c1''),
      StoreInsert \<lparr>row_call_id = JStr ''c1'', row_user_id = ''u1'', row_transcript = hello_flat,
                   row_aligned_transcript = ''<json>''\<rparr>]"

definition refund_flat :: string where
  "refund_flat = ''Hello there.'' @ [NL] @ ''How can I help?'' @ [NL] @ ''I need a refund.''"

definition refund_utterances :: "utterance list" where
  "refund_utterances =
     [\<lparr>speaker = ''Agent'', utext = ''Hello there.''\<rparr>,
      \<lparr>speaker = ''User'', utext = ''How can I help?''\<rparr>,
      \<lparr>speaker = ''Agent'', utext = ''I need a refund.''\<rparr>]"

definition pending_world :: world where
  "pending_world =
     base_world\<lparr>requests_get :=
       (\<lambda>url. if url = bland_url ''c1''
              then Inr (json_response (JObj [(''status'', JStr ''in-progress'')]))
              else unreachable)\<rparr>"

definition stored_row_c1 :: pydict where
  "stored_row_c1 =
     [(''call_id'', JStr ''c1''), (''user_id'', JStr ''u1''),
      (''transcript'', JStr hello_flat), (''aligned_transcript'', JStr ''<json>'')]"

definition stored_world :: world where
  "stored_world =
     base_world\<lparr>supabase := True,
       select_transcript :=
         (\<lambda>call_id. if call_id = ''c1'' then Inr (JObj stored_row_c1) else Inl (Raised ''no rows'')),
       json_loads :=
         (\<lambda>s. if s = ''<json>'' then Inr (JArr (map utterance_json hello_utterances))
               else Inl (Raised ''JSONDecodeError''))\<rparr>"

definition call_success :: pydict where
  "call_success =
     [(''topic'', JStr ''hello''), (''summary'', JStr ''hello''), (''status'', JStr ''success''),
      (''timestamp'', JStr ''2025-01-01T00:00:00''), (''call_id'', JStr ''c0'')]"

definition ten_calls :: history where
  "ten_calls = (\<lambda>phone. Some (replicate 10 call_success))"

definition guest_call :: "string \<Rightarrow> call_request" where
  "guest_call phone =
     \<lparr>call_phone_number = phone, call_topic = ''hello'', call_admin = Some False,
      call_user_id = None\<rparr>"

definition admin_call :: "string \<Rightarrow> call_request" where
  "admin_call phone =
     \<lparr>call_phone_number = phone, call_topic = ''hello'', call_admin = Some True,
      call_user_id = None\<rparr>"

definition guest_sms :: sms_request where
  "guest_sms =
     \<lparr>sms_phone_number = ''+15550100'', sms_message = ''hi'', sms_admin = Some False,
      sms_user_id = None\<rparr>"

definition call_world :: world where
  "call_world =
     base_world\<lparr>post_call := (\<lambda>phone t. Inr (json_response (JObj [(''call_id'', JStr ''c1'')]))),
       post_sms := (\<lambda>phone m. Inr (json_response
                      (JObj [(''success'', JBool True), (''textId'', JStr ''t1''),
                             (''quotaRemaining'', JInt 5)])))\<rparr>"

definition failing_sms_world :: world where
  "failing_sms_world =
     base_world\<lparr>post_sms := (\<lambda>phone m. Inr (json_response
                      (JObj [(''success'', JBool False), (''error'', JStr ''Invalid number'')])))\<rparr>"

definition gemini_text :: "string \<Rightarrow> json" where
  "gemini_text s =
     JObj [(''candidates'', JArr [JObj [(''content'', JObj [(''parts'', JArr [JObj [(''text'', JStr s)]])])]])]"

definition junk_world :: world where
  "junk_world =
     call_world\<lparr>GEMINI_API_KEY := Some ''gemini-key'',
       post_moderation := (\<lambda>phone t. Inr (json_response (gemini_text ''Sure: {}''))),
       json_loads := (\<lambda>s. if s = ''{}'' then Inr (JObj []) else Inl (Raised ''JSONDecodeError''))\<rparr>"

definition failing_model :: "string \<Rightarrow> exn + string" where
  "failing_model t = Inl (Raised ''model failure'')"

definition closing_model :: "string \<Rightarrow> exn + string" where
  "closing_model t = Inr (t @ ''.'')"

definition stripping_model :: "string \<Rightarrow> exn + string" where
  "stripping_model t = Inr (filter (\<lambda>c. c \<notin> set ''.,;:!?'') t)"

definition roundtrip_world :: world where
  "roundtrip_world =
     aligned_world\<lparr>json_loads :=
       (\<lambda>s. if s = ''<json>'' then Inr (JArr (map utterance_json hello_utterances))
             else Inl (Raised ''JSONDecodeError''))\<rparr>"

definition hello_row :: transcript_row where
  "hello_row =
     \<lparr>row_call_id = JStr ''c1'', row_user_id = ''u1'', row_transcript = hello_flat,
      row_aligned_transcript = ''<json>''\<rparr>"

section \<open>The normalizer keeps the text\<close>

lemma re_split_nonempty: "re_split_sentences s \<noteq> []"
  by (induction s rule: re_split_sentences.induct) (auto split: list.splits)

lemma py_join_Cons: "ps \<noteq> [] \<Longrightarrow> py_join sep (p # ps) = p @ sep @ py_join sep ps"
  by (cases ps) auto

lemma filter_dropWhile_same:
  "(\<And>x. P x \<Longrightarrow> \<not> Q x) \<Longrightarrow> filter Q (dropWhile P xs) = filter Q xs"
  by (induction xs) auto

lemma filter_join_split:
  assumes "\<not> keep (CHR '' '')" and "\<not> keep NL"
  shows "filter keep (py_join [NL] (re_split_sentences s)) = filter keep s"
proof (induction s rule: re_split_sentences.induct)
  case 1
  then show ?case by simp
next
  case (2 c cs)
  show ?case
  proof (cases "sentence_end c \<and> cs \<noteq> [] \<and> hd cs = CHR '' ''")
    case True
    have "filter keep (dropWhile (\<lambda>x. x = CHR '' '') cs) = filter keep cs"
      using assms(1) by (intro filter_dropWhile_same) auto
    with True 2(1) assms show ?thesis
      by (simp add: py_join_Cons re_split_nonempty)
  next
    case False
    obtain p ps where ps: "re_split_sentences cs = p # ps"
      using re_split_nonempty [of cs] by (cases "re_split_sentences cs") auto
    have "py_join [NL] ((c # p) # ps) = c # py_join [NL] (p # ps)"
      by (cases ps) auto
    with False 2(2) ps show ?thesis by auto
  qed
qed

lemma space_and_newline_are_whitespace: "py_isspace (CHR '' '')" "py_isspace NL"
  by (simp_all add: py_isspace_def NL_def)

lemma join_split_is_break:
  "py_join [NL] (re_split_sentences t) = break_sentences t"
proof (induction t rule: re_split_sentences.induct)
  case 1
  then show ?case by simp
next
  case (2 c cs)
  show ?case
  proof (cases "sentence_end c \<and> cs \<noteq> [] \<and> hd cs = CHR '' ''")
    case True
    with 2(1) show ?thesis
      by (simp add: py_join_Cons re_split_nonempty)
  next
    case False
    obtain p ps where ps: "re_split_sentences cs = p # ps"
      using re_split_nonempty [of cs] by (cases "re_split_sentences cs") auto
    have "py_join [NL] ((c # p) # ps) = c # py_join [NL] (p # ps)"
      by (cases ps) auto
    with False 2(2) ps show ?thesis by auto
  qed
qed

lemma boundaries_dropWhile_spaces:
  "boundaries (dropWhile (\<lambda>x. x = CHR '' '') cs) = boundaries cs"
  by (induction cs) (auto simp: sentence_end_def)

lemma break_sentences_unchanged: "boundaries t = 0 \<Longrightarrow> break_sentences t = t"
  by (induction t rule: break_sentences.induct) (auto split: if_splits)

lemma break_sentences_newlines:
  "length (filter (\<lambda>c. c = NL) (break_sentences t)) =
     length (filter (\<lambda>c. c = NL) t) + boundaries t"
proof (induction t rule: break_sentences.induct)
  case 1
  then show ?case by simp
next
  case (2 c cs)
  show ?case
  proof (cases "sentence_end c \<and> cs \<noteq> [] \<and> hd cs = CHR '' ''")
    case True
    have "filter (\<lambda>c. c = NL) (dropWhile (\<lambda>x. x = CHR '' '') cs) = filter (\<lambda>c. c = NL) cs"
      by (intro filter_dropWhile_same) (simp add: NL_def)
    moreover from True have "c \<noteq> NL" by (auto simp: sentence_end_def NL_def)
    ultimately show ?thesis
      using True 2(1) by (simp add: boundaries_dropWhile_spaces)
  next
    case False
    with 2(2) show ?thesis by auto
  qed
qed

text \<open>
  C8, as the code has it. For every input string \<open>improve_transcript_readability\<close>
  returns a string: with no punctuation model, or with one that raises, it is the input
  with its sentences broken; with a model that returns a text, it is that text with its
  sentences broken. Breaking the sentences of a text replaces each run of spaces that
  directly follows \<open>.\<close>, \<open>!\<close> or \<open>?\<close> by one newline and changes nothing else: the
  characters other than spaces and newlines stay as they are and in order, so do the
  non-whitespace characters, one newline is added for each such place, and a text without
  such a place (a tab after the full stop is none) is returned as it is. What the
  punctuation model itself removed stays removed.
\<close>

theorem normalizer_breaks_sentences_only:
  "improve_transcript_readability None (JStr s) = Inr (break_sentences s) \<and>
   (f s = Inl e \<longrightarrow> improve_transcript_readability (Some f) (JStr s) = Inr (break_sentences s)) \<and>
   (f s = Inr p \<longrightarrow> improve_transcript_readability (Some f) (JStr s) = Inr (break_sentences p)) \<and>
   filter (\<lambda>c. c \<noteq> CHR '' '' \<and> c \<noteq> NL) (break_sentences t) =
     filter (\<lambda>c. c \<noteq> CHR '' '' \<and> c \<noteq> NL) t \<and>
   filter (\<lambda>c. \<not> py_isspace c) (break_sentences t) = filter (\<lambda>c. \<not> py_isspace c) t \<and>
   length (filter (\<lambda>c. c = NL) (break_sentences t)) =
     length (filter (\<lambda>c. c = NL) t) + boundaries t \<and>
   (boundaries t = 0 \<longrightarrow> break_sentences t = t)"
proof (intro conjI impI)
  show "improve_transcript_readability None (JStr s) = Inr (break_sentences s)"
    by (simp add: restore_or_keep_def join_split_is_break)
  show "improve_transcript_readability (Some f) (JStr s) = Inr (break_sentences s)" if "f s = Inl e"
    using that by (simp add: restore_or_keep_def join_split_is_break)
  show "improve_transcript_readability (Some f) (JStr s) = Inr (break_sentences p)" if "f s = Inr p"
    using that by (simp add: restore_or_keep_def join_split_is_break)
  show "filter (\<lambda>c. c \<noteq> CHR '' '' \<and> c \<noteq> NL) (break_sentences t) =
     filter (\<lambda>c. c \<noteq> CHR '' '' \<and> c \<noteq> NL) t"
    unfolding join_split_is_break [symmetric] by (rule filter_join_split) simp_all
  show "filter (\<lambda>c. \<not> py_isspace c) (break_sentences t) = filter (\<lambda>c. \<not> py_isspace c) t"
    unfolding join_split_is_break [symmetric]
    by (rule filter_join_split) (simp_all add: space_and_newline_are_whitespace)
  show "length (filter (\<lambda>c. c = NL) (break_sentences t)) =
     length (filter (\<lambda>c. c = NL) t) + boundaries t"
    by (rule break_sentences_newlines)
  show "break_sentences t = t" if "boundaries t = 0"
    using that by (rule break_sentences_unchanged)
qed

theorem normalizer_breaks_sentences_only_witness:
  "improve_transcript_readability (Some failing_model) (JStr ''Hi there.  How are you? Fine'') =
     Inr (''Hi there.'' @ [NL] @ ''How are you?'' @ [NL] @ ''Fine'') \<and>
   improve_transcript_readability (Some closing_model) (JStr ''Hi there.  How are you? Fine'') =
     Inr (''Hi there.'' @ [NL] @ ''How are you?'' @ [NL] @ ''Fine.'') \<and>
   boundaries ''Hi there.  How are you? Fine'' = 2 \<and>
   boundaries (''Hi.'' @ [CHR 0x09] @ ''Yo'') = 0 \<and>
   break_sentences (''Hi.'' @ [CHR 0x09] @ ''Yo'') = ''Hi.'' @ [CHR 0x09] @ ''Yo''"
  using normalizer_breaks_sentences_only
    [of "''Hi there.  How are you? Fine''" failing_model "Raised ''model failure''"
        "''Hi there.  How are you? Fine.''" "''Hi.'' @ [CHR 0x09] @ ''Yo''"]
    normalizer_breaks_sentences_only
    [of "''Hi there.  How are you? Fine''" closing_model "Raised ''model failure''"
        "''Hi there.  How are you? Fine.''" "''Hi there.  How are you? Fine''"]
  by (simp add: failing_model_def closing_model_def sentence_end_def NL_def)

text \<open>
  The claim as stated fails when the punctuation model succeeds and takes characters
  away: with a model that strips punctuation marks, \<open>Agent: hi\<close> comes back without its
  colon.
\<close>

theorem normalizer_drops_what_the_model_drops:
  "improve_transcript_readability (Some stripping_model) (JStr ''Agent: hi'') = Inr ''Agent hi'' \<and>
   filter (\<lambda>c. \<not> py_isspace c) ''Agent hi'' \<noteq> filter (\<lambda>c. \<not> py_isspace c) ''Agent: hi''"
  by (simp add: stripping_model_def restore_or_keep_def sentence_end_def py_isspace_def)

section \<open>The aligner on flat text follows the alternation rule\<close>

lemma after_marker:
  assumes "startswith line (m @ '':'')" and "CHR '':'' \<notin> set m"
  shows "py_index1 (py_split1 (CHR '':'') line) = Inr (drop (Suc (length m)) line)"
proof -
  from assms(1) obtain r where line: "line = m @ CHR '':'' # r"
    unfolding startswith_def by (metis append_Cons append_Nil append_assoc append_take_drop_id)
  have "dropWhile (\<lambda>c. c \<noteq> CHR '':'') line = CHR '':'' # r"
    using assms(2) unfolding line by (auto simp: dropWhile_append3)
  then show ?thesis unfolding py_split1_def line by simp
qed

lemma startswith_Cons:
  "startswith s (a # p) \<longleftrightarrow> (\<exists>r. s = a # r \<and> startswith r p)"
  by (cases s) (auto simp: startswith_def)

lemma markers_exclusive:
  "startswith s ''AI:'' \<Longrightarrow> \<not> startswith s ''Agent:''"
  "startswith s ''AI:'' \<Longrightarrow> \<not> startswith s ''Human:''"
  "startswith s ''AI:'' \<Longrightarrow> \<not> startswith s ''User:''"
  "startswith s ''Agent:'' \<Longrightarrow> \<not> startswith s ''Human:''"
  "startswith s ''Agent:'' \<Longrightarrow> \<not> startswith s ''User:''"
  "startswith s ''Human:'' \<Longrightarrow> \<not> startswith s ''User:''"
  by (auto simp: startswith_Cons)

lemma align_lines_spec_align:
  "align_lines aligned ls = Inr (aligned @ spec_align (last_speaker aligned) ls)"
proof (induction ls arbitrary: aligned)
  case Nil
  then show ?case by simp
next
  case (Cons l ls)
  have m1: "startswith (py_strip l) ''AI:'' \<Longrightarrow>
      py_index1 (py_split1 (CHR '':'') (py_strip l)) = Inr (drop 3 (py_strip l))"
    using after_marker [of "py_strip l" "''AI''"] by (simp add: eval_nat_numeral)
  have m2: "startswith (py_strip l) ''Agent:'' \<Longrightarrow>
      py_index1 (py_split1 (CHR '':'') (py_strip l)) = Inr (drop 6 (py_strip l))"
    using after_marker [of "py_strip l" "''Agent''"] by (simp add: eval_nat_numeral)
  have m3: "startswith (py_strip l) ''Human:'' \<Longrightarrow>
      py_index1 (py_split1 (CHR '':'') (py_strip l)) = Inr (drop 6 (py_strip l))"
    using after_marker [of "py_strip l" "''Human''"] by (simp add: eval_nat_numeral)
  have m4: "startswith (py_strip l) ''User:'' \<Longrightarrow>
      py_index1 (py_split1 (CHR '':'') (py_strip l)) = Inr (drop 5 (py_strip l))"
    using after_marker [of "py_strip l" "''User''"] by (simp add: eval_nat_numeral)
  show ?case
    using markers_exclusive [of "py_strip l"]
    by (auto simp add: Cons.IH Let_def m1 m2 m3 m4 last_speaker_def opposite_def)
qed

text \<open>
  C6. On every flat text the loop of lines 453-478 never fails and returns what the rule of
  section 4.2(b) gives for the lines of the text (\<open>spec_align\<close>): a blank line gives
  nothing; a line starting with \<open>AI:\<close> or \<open>Agent:\<close> is an Agent utterance and one starting
  with \<open>Human:\<close> or \<open>User:\<close> a User utterance, the marker removed and the rest trimmed; any
  other line is Agent when nothing precedes it and otherwise the opposite of the speaker
  before. The text \<open>"Agent: hi\nUser: hello\nbye"\<close> gives Agent "hi", User "hello",
  Agent "bye".
\<close>

theorem align_text_alternation:
  "align_text t = Inr (spec_align None (py_split NL t)) \<and>
   align_text (''Agent: hi'' @ [NL] @ ''User: hello'' @ [NL] @ ''bye'') =
     Inr [\<lparr>speaker = ''Agent'', utext = ''hi''\<rparr>,
          \<lparr>speaker = ''User'', utext = ''hello''\<rparr>,
          \<lparr>speaker = ''Agent'', utext = ''bye''\<rparr>]"
proof
  show "align_text t = Inr (spec_align None (py_split NL t))"
    unfolding align_text_def using align_lines_spec_align [of "[]"] by (simp add: last_speaker_def)
  show "align_text (''Agent: hi'' @ [NL] @ ''User: hello'' @ [NL] @ ''bye'') =
     Inr [\<lparr>speaker = ''Agent'', utext = ''hi''\<rparr>,
          \<lparr>speaker = ''User'', utext = ''hello''\<rparr>,
          \<lparr>speaker = ''Agent'', utext = ''bye''\<rparr>]"
    by (simp add: align_text_def NL_def py_strip_def py_isspace_def startswith_def py_split1_def)
qed

theorem align_text_alternation_witness:
  "align_text (''line1'' @ [NL] @ [NL] @ ''line2'' @ [NL] @ ''line3'') =
     Inr [\<lparr>speaker = ''Agent'', utext = ''line1''\<rparr>,
          \<lparr>speaker = ''User'', utext = ''line2''\<rparr>,
          \<lparr>speaker = ''Agent'', utext = ''line3''\<rparr>]"
  using align_text_alternation [of "''line1'' @ [NL] @ [NL] @ ''line2'' @ [NL] @ ''line3''"]
  by (simp add: NL_def py_strip_def py_isspace_def startswith_def opposite_def)

section \<open>The loops of path (a) and the stages of the resolver\<close>

lemma align_segments_spec:
  "align_segments al ct segs = Inr (al', ct') \<Longrightarrow>
     al' = al @ map segment_utterance (spoken segs) \<and>
     ct' = ct @ render (map segment_utterance (spoken segs))"
proof (induction segs arbitrary: al ct)
  case Nil
  then show ?case by (simp add: spoken_def render_def)
next
  case (Cons seg segs)
  from Cons.prems obtain d s where seg: "seg = JObj d" and tx: "dict_get d ''text'' (JStr []) = JStr s"
    by (cases seg; cases "dict_get (case seg of JObj d \<Rightarrow> d) ''text'' (JStr [])") (auto split: sum.splits)
  show ?case
  proof (cases "py_strip s = []")
    case True
    with Cons.prems seg tx have "align_segments al ct segs = Inr (al', ct')" by simp
    from Cons.IH [OF this] True seg tx show ?thesis
      by (simp add: spoken_def segment_text_def and_then_def)
  next
    case False
    let ?spk = "if dict_get d ''from'' JNull = JStr ''ai'' then ''Agent'' else ''User''"
    from False Cons.prems seg tx
    have "align_segments (al @ [\<lparr>speaker = ?spk, utext = py_strip s\<rparr>])
            (ct @ ?spk @ '': '' @ py_strip s @ [NL]) segs = Inr (al', ct')"
      by (simp add: Let_def)
    from Cons.IH [OF this] False seg tx show ?thesis
      by (simp add: spoken_def segment_text_def segment_utterance_def and_then_def render_def)
  qed
qed

lemma concat_corrected_spec:
  "concat_corrected w ct segs = Inr ct' \<Longrightarrow> ct' = ct @ render_segments w segs"
proof (induction segs arbitrary: ct)
  case Nil
  then show ?case by (simp add: render_segments_def spoken_def)
next
  case (Cons seg segs)
  from Cons.prems obtain d s where seg: "seg = JObj d" and tx: "dict_get d ''text'' (JStr []) = JStr s"
    by (cases seg; cases "dict_get (case seg of JObj d \<Rightarrow> d) ''text'' (JStr [])") (auto split: sum.splits)
  show ?case
  proof (cases "py_strip s = []")
    case True
    with Cons.prems seg tx have "concat_corrected w ct segs = Inr ct'" by simp
    from Cons.IH [OF this] True seg tx show ?thesis
      by (simp add: render_segments_def spoken_def segment_text_def and_then_def)
  next
    case False
    from False Cons.prems seg tx
    have "concat_corrected w (ct @ fstr w (dict_get d ''speaker'' (JStr ''Unknown'')) @ '': '' @ py_strip s @ [NL]) segs = Inr ct'"
      by simp
    from Cons.IH [OF this] False seg tx show ?thesis
      by (simp add: render_segments_def spoken_def segment_text_def segment_speaker_def and_then_def)
  qed
qed


lemma persisted_append: "persisted (xs @ ys) = persisted xs @ persisted ys"
  by (induction xs rule: persisted.induct) auto

lemma provider_gets_append: "provider_gets (xs @ ys) = provider_gets xs @ provider_gets ys"
  by (induction xs rule: provider_gets.induct) auto

lemma save_transcript_events:
  "persisted (save_transcript w u StoreUpsert cid flat a) =
     (if supabase w \<and> is_set u then [(flat, json_dumps w a)] else [])"
  "persisted (save_transcript w u StoreInsert cid flat a) =
     (if supabase w \<and> is_set u then [(flat, json_dumps w a)] else [])"
  "provider_gets (save_transcript w u StoreUpsert cid flat a) = []"
  "provider_gets (save_transcript w u StoreInsert cid flat a) = []"
  by (auto simp: save_transcript_def is_set_def split: option.splits)

lemma stored_transcript_events:
  "stored_transcript w cid u = (r, evs) \<Longrightarrow> persisted evs = [] \<and> provider_gets evs = []"
  by (auto simp: stored_transcript_def split: if_splits)

lemma corrected_transcript_cases:
  "corrected_transcript w cid u = (None, [ProviderGet (corrected_url cid)]) \<or>
   (\<exists>resp cd a segs ct.
      requests_get w (corrected_url cid) = Inr resp \<and> ok resp \<and> body_json resp = Inr cd \<and>
      py_get cd ''aligned'' JNull = Inr a \<and> truthy a \<and> iterate a = Inr segs \<and>
      concat_corrected w [] segs = Inr ct \<and>
      corrected_transcript w cid u =
        (Some (Success (JStr ct) a),
         ProviderGet (corrected_url cid) # save_transcript w u StoreUpsert (JStr cid) ct a))"
  unfolding corrected_transcript_def
  by (simp split: sum.splits)

lemma resolve_detail_success:
  assumes "resolve_detail w u v = Inr (Success t a, evs)"
  shows "\<exists>data flat al.
           v = JObj data \<and> t = JStr flat \<and> a = JArr (map utterance_json al) \<and>
           evs = save_transcript w u StoreInsert (dict_get data ''call_id'' JNull) flat a \<and>
           (if truthy (dict_get data ''transcript_aligned'' JNull)
            then \<exists>segs. iterate (dict_get data ''transcript_aligned'' JNull) = Inr segs \<and>
                        align_segments [] [] segs = Inr (al, flat)
            else improve_transcript_readability (punctuation_model w)
                   (dict_get data ''transcript'' JNull) = Inr flat \<and>
                 align_text flat = Inr al \<and> al \<noteq> [])"
  using assms unfolding resolve_detail_def pending_or_unavailable_def
  by (auto split: json.splits sum.splits if_splits prod.splits)

lemma regular_transcript_success:
  assumes "regular_transcript w cid u = (Success t a, evs)"
  shows "\<exists>resp v evs'.
           requests_get w (bland_url cid) = Inr resp \<and> ok resp \<and> body_json resp = Inr v \<and>
           resolve_detail w u v = Inr (Success t a, evs') \<and>
           evs = ProviderGet (bland_url cid) # evs'"
  using assms unfolding regular_transcript_def transcript_error_def
  by (auto split: sum.splits if_splits prod.splits)


lemma live_transcript_cases:
  assumes run: "get_call_transcript w cid u = (Success t a, evs)"
      and live: "provider_gets evs \<noteq> []"
  shows "(\<exists>resp cd segs ct.
            requests_get w (corrected_url cid) = Inr resp \<and> ok resp \<and> body_json resp = Inr cd \<and>
            py_get cd ''aligned'' JNull = Inr a \<and> truthy a \<and> iterate a = Inr segs \<and>
            concat_corrected w [] segs = Inr ct \<and> t = JStr ct \<and>
            provider_gets evs = [corrected_url cid] \<and>
            persisted evs = (if supabase w \<and> is_set u then [(ct, json_dumps w a)] else []))
       \<or> (\<exists>resp v evs'.
            requests_get w (bland_url cid) = Inr resp \<and> ok resp \<and> body_json resp = Inr v \<and>
            resolve_detail w u v = Inr (Success t a, evs') \<and>
            provider_gets evs = [corrected_url cid, bland_url cid] \<and>
            persisted evs = persisted evs')"
proof -
  from run have key: "is_set (BLAND_API_KEY w)"
    by (auto simp: get_call_transcript_def split: if_splits)
  obtain r0 evs0 where st: "stored_transcript w cid u = (r0, evs0)"
    by (cases "stored_transcript w cid u") auto
  note ev0 = stored_transcript_events [OF st]
  show ?thesis
  proof (cases r0)
    case (Some out)
    with run key st have "evs = evs0" by (simp add: get_call_transcript_def)
    with ev0 live show ?thesis by simp
  next
    case None
    from corrected_transcript_cases [of w cid u] show ?thesis
    proof (elim disjE exE conjE)
      assume c: "corrected_transcript w cid u = (None, [ProviderGet (corrected_url cid)])"
      obtain out3 evs3 where reg: "regular_transcript w cid u = (out3, evs3)"
        by (cases "regular_transcript w cid u") auto
      from run key st None c reg
      have out3: "out3 = Success t a" and evs: "evs = evs0 @ [ProviderGet (corrected_url cid)] @ evs3"
        by (simp_all add: get_call_transcript_def)
      from regular_transcript_success [OF reg [unfolded out3]] obtain resp v evs' where
        r: "requests_get w (bland_url cid) = Inr resp" "ok resp" "body_json resp = Inr v"
           "resolve_detail w u v = Inr (Success t a, evs')" "evs3 = ProviderGet (bland_url cid) # evs'"
        by blast
      from resolve_detail_success [OF r(4)] have "provider_gets evs' = []"
        by (auto simp: save_transcript_events)
      with r evs ev0 show ?thesis
        by (auto simp: provider_gets_append persisted_append)
    next
      fix resp cd a' segs ct
      assume c: "requests_get w (corrected_url cid) = Inr resp" "ok resp" "body_json resp = Inr cd"
        "py_get cd ''aligned'' JNull = Inr a'" "truthy a'" "iterate a' = Inr segs"
        "concat_corrected w [] segs = Inr ct"
        "corrected_transcript w cid u =
           (Some (Success (JStr ct) a'),
            ProviderGet (corrected_url cid) # save_transcript w u StoreUpsert (JStr cid) ct a')"
      from run key st None c(8)
      have "t = JStr ct" "a = a'"
        "evs = evs0 @ ProviderGet (corrected_url cid) # save_transcript w u StoreUpsert (JStr cid) ct a'"
        by (auto simp add: get_call_transcript_def)
      with c ev0 show ?thesis
        by (auto simp: provider_gets_append persisted_append save_transcript_events)
    qed
  qed
qed

lemma urls_differ: "corrected_url cid \<noteq> bland_url cid"
  by (simp add: corrected_url_def bland_url_def)

lemma align_segments_total:
  "\<forall>s \<in> set segs. segment_ok s \<Longrightarrow>
     align_segments al ct segs =
       Inr (al @ map segment_utterance (spoken segs), ct @ render (map segment_utterance (spoken segs)))"
proof (induction segs arbitrary: al ct)
  case Nil
  then show ?case by (simp add: spoken_def render_def)
next
  case (Cons seg segs)
  from Cons.prems obtain d s where seg: "seg = JObj d" and tx: "dict_get d ''text'' (JStr []) = JStr s"
    by (auto simp: segment_ok_def split: json.splits)
  from Cons.prems have rest: "\<forall>s \<in> set segs. segment_ok s" by simp
  show ?case
    using Cons.IH [OF rest] seg tx
    by (simp add: spoken_def segment_text_def segment_utterance_def and_then_def render_def Let_def)
qed

lemma concat_corrected_total:
  "\<forall>s \<in> set segs. segment_ok s \<Longrightarrow>
     concat_corrected w ct segs = Inr (ct @ render_segments w segs)"
proof (induction segs arbitrary: ct)
  case Nil
  then show ?case by (simp add: spoken_def render_segments_def)
next
  case (Cons seg segs)
  from Cons.prems obtain d s where seg: "seg = JObj d" and tx: "dict_get d ''text'' (JStr []) = JStr s"
    by (auto simp: segment_ok_def split: json.splits)
  from Cons.prems have rest: "\<forall>s \<in> set segs. segment_ok s" by simp
  show ?case
    using Cons.IH [OF rest] seg tx
    by (simp add: spoken_def segment_text_def segment_speaker_def render_segments_def and_then_def)
qed

lemma length_spoken: "length (spoken segs) \<le> length segs"
  by (simp add: spoken_def)

lemma length_spoken_eq:
  "length (spoken segs) = length segs \<longleftrightarrow> (\<forall>s \<in> set segs. segment_text s \<noteq> [])"
proof
  assume "length (spoken segs) = length segs"
  then have "filter (\<lambda>segment. segment_text segment \<noteq> []) segs = segs"
    unfolding spoken_def by (metis length_filter_less less_irrefl_nat filter_True)
  then show "\<forall>s \<in> set segs. segment_text s \<noteq> []"
    by (simp add: filter_id_conv)
next
  assume "\<forall>s \<in> set segs. segment_text s \<noteq> []"
  then show "length (spoken segs) = length segs"
    by (simp add: spoken_def)
qed



lemma resolve_detail_aligned:
  assumes "dict_get data ''transcript_aligned'' JNull = JArr segs" and "segs \<noteq> []"
      and "\<forall>s \<in> set segs. segment_ok s"
  shows "resolve_detail w u (JObj data) =
        Inr (Success (JStr (render (map segment_utterance (spoken segs))))
               (JArr (map utterance_json (map segment_utterance (spoken segs)))),
             save_transcript w u StoreInsert (dict_get data ''call_id'' JNull)
               (render (map segment_utterance (spoken segs)))
               (JArr (map utterance_json (map segment_utterance (spoken segs)))))"
proof -
  have "align_segments [] [] segs =
      Inr (map segment_utterance (spoken segs), render (map segment_utterance (spoken segs)))"
    using align_segments_total [OF assms(3), of "[]" "[]"] by simp
  with assms(1,2) show ?thesis
    unfolding resolve_detail_def by simp
qed

lemma corrected_transcript_aligned:
  assumes "requests_get w (corrected_url call_id) = Inr resp" and "ok resp"
      and "body_json resp = Inr (JObj corrected_data)"
      and "dict_get corrected_data ''aligned'' JNull = JArr segs" and "segs \<noteq> []"
      and "\<forall>s \<in> set segs. segment_ok s"
  shows "corrected_transcript w call_id u =
        (Some (Success (JStr (render_segments w segs)) (JArr segs)),
         ProviderGet (corrected_url call_id) #
         save_transcript w u StoreUpsert (JStr call_id) (render_segments w segs) (JArr segs))"
proof -
  have "concat_corrected w [] segs = Inr (render_segments w segs)"
    using concat_corrected_total [OF assms(6), of w "[]"] by simp
  with assms(1-5) show ?thesis
    unfolding corrected_transcript_def by simp
qed

section \<open>Path (a): which segments are dropped\<close>

text \<open>
  C5, as the code has it. On the call-detail field \<open>transcript_aligned\<close> (lines 421-430),
  for every non-empty list of segments that are dictionaries with a string text, the
  handler returns the sequence of the segments whose trimmed text is not empty, each mapped
  to its utterance, in order: its length is at most the input's, and equal exactly when no
  segment has an empty trimmed text. On the corrected endpoint (lines 379-403) the returned
  sequence is the provider's list as it was sent, whatever the texts; only the flat
  transcript leaves out the segments whose trimmed text is empty.
\<close>

theorem aligned_field_drops_empty_segments:
  "(dict_get data ''transcript_aligned'' JNull = JArr segs \<and> segs \<noteq> [] \<and>
    (\<forall>s \<in> set segs. segment_ok s) \<longrightarrow>
      resolve_detail w u (JObj data) =
        Inr (Success (JStr (render (map segment_utterance (spoken segs))))
               (JArr (map utterance_json (map segment_utterance (spoken segs)))),
             save_transcript w u StoreInsert (dict_get data ''call_id'' JNull)
               (render (map segment_utterance (spoken segs)))
               (JArr (map utterance_json (map segment_utterance (spoken segs))))) \<and>
      length (map segment_utterance (spoken segs)) \<le> length segs \<and>
      (length (map segment_utterance (spoken segs)) = length segs
         \<longleftrightarrow> (\<forall>s \<in> set segs. segment_text s \<noteq> []))) \<and>
   (requests_get w (corrected_url call_id) = Inr resp \<and> ok resp \<and>
    body_json resp = Inr (JObj corrected_data) \<and>
    dict_get corrected_data ''aligned'' JNull = JArr segs' \<and> segs' \<noteq> [] \<and>
    (\<forall>s \<in> set segs'. segment_ok s) \<longrightarrow>
      corrected_transcript w call_id u =
        (Some (Success (JStr (render_segments w segs')) (JArr segs')),
         ProviderGet (corrected_url call_id) #
         save_transcript w u StoreUpsert (JStr call_id) (render_segments w segs') (JArr segs')))"
proof (intro conjI impI)
  assume a: "dict_get data ''transcript_aligned'' JNull = JArr segs \<and> segs \<noteq> [] \<and>
    (\<forall>s \<in> set segs. segment_ok s)"
  then have a1: "dict_get data ''transcript_aligned'' JNull = JArr segs" and a2: "segs \<noteq> []"
    and a3: "\<forall>s \<in> set segs. segment_ok s" by blast+
  show "resolve_detail w u (JObj data) =
        Inr (Success (JStr (render (map segment_utterance (spoken segs))))
               (JArr (map utterance_json (map segment_utterance (spoken segs)))),
             save_transcript w u StoreInsert (dict_get data ''call_id'' JNull)
               (render (map segment_utterance (spoken segs)))
               (JArr (map utterance_json (map segment_utterance (spoken segs)))))"
    by (rule resolve_detail_aligned [OF a1 a2 a3])
  show "length (map segment_utterance (spoken segs)) \<le> length segs"
    by (simp add: length_spoken)
  show "length (map segment_utterance (spoken segs)) = length segs
         \<longleftrightarrow> (\<forall>s \<in> set segs. segment_text s \<noteq> [])"
    by (simp add: length_spoken_eq)
next
  assume b: "requests_get w (corrected_url call_id) = Inr resp \<and> ok resp \<and>
    body_json resp = Inr (JObj corrected_data) \<and>
    dict_get corrected_data ''aligned'' JNull = JArr segs' \<and> segs' \<noteq> [] \<and>
    (\<forall>s \<in> set segs'. segment_ok s)"
  then have b1: "requests_get w (corrected_url call_id) = Inr resp" and b2: "ok resp"
    and b3: "body_json resp = Inr (JObj corrected_data)"
    and b4: "dict_get corrected_data ''aligned'' JNull = JArr segs'" and b5: "segs' \<noteq> []"
    and b6: "\<forall>s \<in> set segs'. segment_ok s" by blast+
  show "corrected_transcript w call_id u =
        (Some (Success (JStr (render_segments w segs')) (JArr segs')),
         ProviderGet (corrected_url call_id) #
         save_transcript w u StoreUpsert (JStr call_id) (render_segments w segs') (JArr segs'))"
    by (rule corrected_transcript_aligned [OF b1 b2 b3 b4 b5 b6])
qed

theorem aligned_field_drops_empty_segments_witness:
  "resolve_detail aligned_world (Some ''u1'')
     (JObj [(''call_id'', JStr ''c1''), (''transcript_aligned'', JArr (hello_segments ''from''))]) =
     Inr (Success (JStr (''Agent: Hello'' @ [NL] @ ''User: Hi'' @ [NL]))
            (JArr [segment ''speaker'' ''Agent'' ''Hello'', segment ''speaker'' ''User'' ''Hi'']),
          [StoreInsert \<lparr>row_call_id = JStr ''c1'', row_user_id = ''u1'',
             row_transcript = ''Agent: Hello'' @ [NL] @ ''User: Hi'' @ [NL],
             row_aligned_transcript = ''<json>''\<rparr>]) \<and>
   length (spoken (hello_segments ''from'')) = 2 \<and> length (hello_segments ''from'') = 3 \<and>
   corrected_transcript corrected_world ''c1'' None =
     (Some (Success (JStr (''ai: Hello'' @ [NL] @ ''human: Hi'' @ [NL]))
              (JArr (hello_segments ''speaker''))),
      [ProviderGet (corrected_url ''c1'')])"
  using aligned_field_drops_empty_segments
    [where data = "[(''call_id'', JStr ''c1''), (''transcript_aligned'', JArr (hello_segments ''from''))]"
       and segs = "hello_segments ''from''" and w = corrected_world and u = None
       and call_id = "''c1''"
       and resp = "json_response (JObj [(''aligned'', JArr (hello_segments ''speaker''))])"
       and corrected_data = "[(''aligned'', JArr (hello_segments ''speaker''))]"
       and segs' = "hello_segments ''speaker''"]
    aligned_field_drops_empty_segments
    [where data = "[(''call_id'', JStr ''c1''), (''transcript_aligned'', JArr (hello_segments ''from''))]"
       and segs = "hello_segments ''from''" and w = aligned_world and u = "Some ''u1''"
       and call_id = "''c1''"
       and resp = "json_response (JObj [(''aligned'', JArr (hello_segments ''speaker''))])"
       and corrected_data = "[(''aligned'', JArr (hello_segments ''speaker''))]"
       and segs' = "hello_segments ''speaker''"]
  by (simp add: dict_get_def corrected_world_def aligned_world_def base_world_def
      json_response_def ok_def save_transcript_def render_def render_segments_def
      segment_utterance_def segment_speaker_def utterance_json_def segment_def fstr_def
      corrected_url_def bland_url_def unreachable_def hello_segments_def spoken_def
      segment_text_def segment_ok_def and_then_def py_strip_def py_isspace_def NL_def)

text \<open>
  The claim as stated fails on the corrected endpoint: a list of three segments, the second
  with nothing but spaces as text, comes back with all three.
\<close>

theorem returned_segments_counterexample:
  "fst (get_call_transcript corrected_world ''c1'' None) =
     Success (JStr (''ai: Hello'' @ [NL] @ ''human: Hi'' @ [NL])) (JArr (hello_segments ''speaker'')) \<and>
   length (hello_segments ''speaker'') = 3 \<and>
   segment_text (hello_segments ''speaker'' ! 1) = []"
  by (simp add: get_call_transcript_def stored_transcript_def corrected_transcript_def
      corrected_world_def base_world_def is_set_def json_response_def ok_def dict_get_def
      corrected_url_def hello_segments_def segment_def fstr_def py_strip_def py_isspace_def
      segment_text_def and_then_def NL_def)

section \<open>The flat transcript and the returned sequence\<close>

text \<open>
  C2, as the code has it. Whenever a live source resolves a transcript, the flat transcript
  returned is a string, and what is written to the transcript table (only with a database
  client and a user id) is that string with the serialised returned sequence. On the
  call-detail aligned field the flat string is the rendering \<open>"{speaker}: {text}\n"\<close> of
  the returned sequence. On the corrected endpoint it is that rendering over the returned
  segments with each text trimmed and the segments with an empty trimmed text left out. On
  the flat transcript field it is the normalized text itself, and the returned sequence is
  what the aligner makes of that text.
\<close>

theorem flat_transcript_of_live_paths:
  assumes run: "get_call_transcript w cid u = (Success t a, evs)"
      and live: "provider_gets evs \<noteq> []"
  shows "\<exists>flat. t = JStr flat \<and>
           persisted evs = (if supabase w \<and> is_set u then [(flat, json_dumps w a)] else []) \<and>
           (if provider_gets evs = [corrected_url cid]
            then \<exists>segs. iterate a = Inr segs \<and> flat = render_segments w segs
            else \<exists>resp data al.
                   requests_get w (bland_url cid) = Inr resp \<and>
                   body_json resp = Inr (JObj data) \<and>
                   a = JArr (map utterance_json al) \<and>
                   (if truthy (dict_get data ''transcript_aligned'' JNull)
                    then flat = render al
                    else improve_transcript_readability (punctuation_model w)
                           (dict_get data ''transcript'' JNull) = Inr flat \<and>
                         align_text flat = Inr al \<and> al \<noteq> []))"
  using live_transcript_cases [OF run live]
proof (elim disjE exE conjE)
  fix resp cd segs ct
  assume c: "iterate a = Inr segs" "concat_corrected w [] segs = Inr ct" "t = JStr ct"
    "provider_gets evs = [corrected_url cid]"
    "persisted evs = (if supabase w \<and> is_set u then [(ct, json_dumps w a)] else [])"
  from concat_corrected_spec [OF c(2)] have "ct = render_segments w segs" by simp
  with c show ?thesis by auto
next
  fix resp v evs'
  assume r: "requests_get w (bland_url cid) = Inr resp" "body_json resp = Inr v"
    "resolve_detail w u v = Inr (Success t a, evs')"
    "provider_gets evs = [corrected_url cid, bland_url cid]"
    "persisted evs = persisted evs'"
  from resolve_detail_success [OF r(3)] obtain data flat al where
    d: "v = JObj data" "t = JStr flat" "a = JArr (map utterance_json al)"
       "evs' = save_transcript w u StoreInsert (dict_get data ''call_id'' JNull) flat a"
       "if truthy (dict_get data ''transcript_aligned'' JNull)
            then \<exists>segs. iterate (dict_get data ''transcript_aligned'' JNull) = Inr segs \<and>
                        align_segments [] [] segs = Inr (al, flat)
            else improve_transcript_readability (punctuation_model w)
                   (dict_get data ''transcript'' JNull) = Inr flat \<and>
                 align_text flat = Inr al \<and> al \<noteq> []"
    by blast
  have shape: "if truthy (dict_get data ''transcript_aligned'' JNull)
                    then flat = render al
                    else improve_transcript_readability (punctuation_model w)
                           (dict_get data ''transcript'' JNull) = Inr flat \<and>
                         align_text flat = Inr al \<and> al \<noteq> []"
  proof (cases "truthy (dict_get data ''transcript_aligned'' JNull)")
    case True
    with d(5) obtain segs where "align_segments [] [] segs = Inr (al, flat)" by auto
    from align_segments_spec [OF this] have "flat = render al" by simp
    with True show ?thesis by simp
  next
    case False
    with d(5) show ?thesis by simp
  qed
  have p: "persisted evs = (if supabase w \<and> is_set u then [(flat, json_dumps w a)] else [])"
    using r(5) d(4) by (simp add: save_transcript_events)
  have ne: "provider_gets evs \<noteq> [corrected_url cid]" using r(4) by simp
  show ?thesis
    using d(1,2,3) r(1,2) shape p ne by (intro exI [of _ flat]) auto
qed

theorem flat_transcript_of_live_paths_witness:
  "get_call_transcript aligned_world ''c1'' (Some ''u1'') =
     (Success (JStr hello_flat) (JArr (map utterance_json hello_utterances)), hello_events) \<and>
   provider_gets hello_events \<noteq> [] \<and>
   hello_flat = render hello_utterances \<and>
   persisted hello_events = [(hello_flat, ''<json>'')]"
proof -
  have run: "get_call_transcript aligned_world ''c1'' (Some ''u1'') =
     (Success (JStr hello_flat) (JArr (map utterance_json hello_utterances)), hello_events)"
    by (simp add: get_call_transcript_def stored_transcript_def corrected_transcript_def
        regular_transcript_def resolve_detail_def aligned_world_def base_world_def is_set_def
        unreachable_def corrected_url_def bland_url_def json_response_def ok_def dict_get_def
        hello_segments_def segment_def py_strip_def py_isspace_def save_transcript_def
        utterance_json_def hello_flat_def hello_utterances_def hello_events_def NL_def)
  have live: "provider_gets hello_events \<noteq> []"
    by (simp add: hello_events_def)
  from flat_transcript_of_live_paths [OF run live] run live show ?thesis
    by (simp add: hello_events_def hello_flat_def hello_utterances_def render_def NL_def
        aligned_world_def base_world_def)
qed

text \<open>
  The claim as stated fails on two of the three live paths. On the flat transcript field the
  text \<open>"Hello there. How can I help? I need a refund."\<close> comes back as three lines without
  speakers, next to a sequence of three utterances with speakers. On the corrected endpoint
  the flat string is built from trimmed texts and skips the segment of spaces, and the
  returned sequence is neither trimmed nor shortened.
\<close>

theorem flat_transcript_counterexample:
  "fst (get_call_transcript flat_world ''c1'' None) =
     Success (JStr refund_flat) (JArr (map utterance_json refund_utterances)) \<and>
   render_returned flat_world (map utterance_json refund_utterances) \<noteq> refund_flat \<and>
   fst (get_call_transcript corrected_world ''c1'' None) =
     Success (JStr (''ai: Hello'' @ [NL] @ ''human: Hi'' @ [NL])) (JArr (hello_segments ''speaker'')) \<and>
   render_returned corrected_world (hello_segments ''speaker'') \<noteq>
     ''ai: Hello'' @ [NL] @ ''human: Hi'' @ [NL]"
  by (simp add: get_call_transcript_def stored_transcript_def corrected_transcript_def
      regular_transcript_def resolve_detail_def flat_world_def corrected_world_def base_world_def
      is_set_def unreachable_def corrected_url_def bland_url_def json_response_def ok_def
      dict_get_def align_text_def restore_or_keep_def sentence_end_def save_transcript_def NL_def
      py_strip_def py_isspace_def startswith_def utterance_json_def refund_flat_def
      refund_utterances_def render_returned_def fstr_def hello_segments_def segment_def)

section \<open>The answers of the transcript endpoint\<close>

lemma stored_transcript_kind:
  "stored_transcript w cid u = (Some out, evs) \<Longrightarrow> \<exists>t a. out = Success t a"
  unfolding stored_transcript_def
  by (auto split: if_splits sum.splits json.splits)

lemma corrected_transcript_kind:
  "corrected_transcript w cid u = (Some out, evs) \<Longrightarrow> \<exists>t a. out = Success t a"
  using corrected_transcript_cases [of w cid u] by auto

lemma resolve_detail_kind:
  assumes "resolve_detail w u v = Inr (out, evs)"
  shows "one_of_four out \<and> (\<forall>m. out = Pending m \<longrightarrow> (\<exists>data. v = JObj data \<and> in_progress data))"
  using assms unfolding resolve_detail_def pending_or_unavailable_def one_of_four_def
    pending_message_def unavailable_message_def in_progress_def
  by (cases v) (auto split: sum.splits if_splits prod.splits)

lemma regular_transcript_kind:
  "one_of_four (fst (regular_transcript w cid u)) \<and>
   (\<forall>m. fst (regular_transcript w cid u) = Pending m \<longrightarrow>
      (\<exists>resp data. requests_get w (bland_url cid) = Inr resp \<and> ok resp \<and>
         body_json resp = Inr (JObj data) \<and> in_progress data))"
proof (cases "requests_get w (bland_url cid)")
  case (Inl e)
  then show ?thesis
    by (simp add: regular_transcript_def transcript_error_def one_of_four_def)
next
  case (Inr resp)
  show ?thesis
  proof (cases "ok resp")
    case False
    with Inr show ?thesis
      by (simp add: regular_transcript_def transcript_error_def one_of_four_def)
  next
    case True
    show ?thesis
    proof (cases "body_json resp")
      case (Inl e)
      with Inr True show ?thesis
        by (simp add: regular_transcript_def transcript_error_def one_of_four_def)
    next
      case v: (Inr v)
      show ?thesis
      proof (cases "resolve_detail w u v")
        case (Inl e)
        with Inr True v show ?thesis
          by (simp add: regular_transcript_def transcript_error_def one_of_four_def)
      next
        case r: (Inr r)
        obtain out evs where r': "r = (out, evs)" by (cases r)
        from resolve_detail_kind [OF r [unfolded r']] Inr True v r r' show ?thesis
          by (simp add: regular_transcript_def)
      qed
    qed
  qed
qed

lemma get_call_transcript_from_regular:
  assumes "is_set (BLAND_API_KEY w)" and "fst (stored_transcript w cid u) = None"
      and "fst (corrected_transcript w cid u) = None"
  shows "fst (get_call_transcript w cid u) = fst (regular_transcript w cid u)"
  using assms unfolding get_call_transcript_def
  by (cases "stored_transcript w cid u"; cases "corrected_transcript w cid u";
      cases "regular_transcript w cid u") auto

lemma get_call_transcript_kind:
  "one_of_four (fst (get_call_transcript w cid u)) \<and>
   (\<forall>m. fst (get_call_transcript w cid u) = Pending m \<longrightarrow>
      (\<exists>resp data. requests_get w (bland_url cid) = Inr resp \<and> ok resp \<and>
         body_json resp = Inr (JObj data) \<and> in_progress data))"
proof (cases "is_set (BLAND_API_KEY w)")
  case False
  then show ?thesis by (simp add: get_call_transcript_def one_of_four_def)
next
  case True
  obtain r0 evs0 where st: "stored_transcript w cid u = (r0, evs0)"
    by (cases "stored_transcript w cid u")
  obtain r1 evs1 where co: "corrected_transcript w cid u = (r1, evs1)"
    by (cases "corrected_transcript w cid u")
  show ?thesis
  proof (cases r0)
    case (Some out)
    with stored_transcript_kind [of w cid u out evs0] st True show ?thesis
      by (auto simp: get_call_transcript_def one_of_four_def)
  next
    case None
    note r0 = None
    show ?thesis
    proof (cases r1)
      case (Some out)
      with corrected_transcript_kind [of w cid u out evs1] co st r0 True show ?thesis
        by (auto simp: get_call_transcript_def one_of_four_def)
    next
      case None
      have "fst (get_call_transcript w cid u) = fst (regular_transcript w cid u)"
        using True st co r0 None by (intro get_call_transcript_from_regular) simp_all
      with regular_transcript_kind [of w cid u] show ?thesis by simp
    qed
  qed
qed

lemma resolve_detail_pending:
  assumes "\<not> truthy (dict_get data ''transcript_aligned'' JNull)"
      and "\<not> truthy (dict_get data ''transcript'' JNull) \<or>
           (\<exists>improved. improve_transcript_readability (punctuation_model w)
                          (dict_get data ''transcript'' JNull) = Inr improved \<and>
                        align_text improved = Inr [])"
      and "in_progress data"
  shows "resolve_detail w u (JObj data) = Inr (Pending pending_message, [])"
  using assms unfolding resolve_detail_def pending_or_unavailable_def pending_message_def
    in_progress_def
  by auto

text \<open>
  C7, as the code has it. Every transcript request ends in exactly one of four answers:
  success with a transcript, pending, unavailable, or an HTTP 500 error (the provider key
  is missing, the call-detail request failed or was refused, or an exception reached the
  handler). Pending is a kind of its own, with its own message; it is given only when the
  call-detail response is a dictionary whose status is \<open>"in-progress"\<close> or whose
  \<open>completed\<close> is \<open>False\<close>, and it is given whenever no stored and no corrected transcript
  was found, the call-detail response carries no aligned field and no transcript (or one
  with no utterance in it), and the call is in progress in that sense.
\<close>

theorem transcript_outcomes:
  "(case fst (get_call_transcript w cid u) of
      Success t a \<Rightarrow> True
    | Pending m \<Rightarrow> m = pending_message
    | Unavailable m \<Rightarrow> m = unavailable_message
    | HTTPError code detail \<Rightarrow> code = 500) \<and>
   (\<forall>m. fst (get_call_transcript w cid u) = Pending m \<longrightarrow>
      (\<exists>resp data. requests_get w (bland_url cid) = Inr resp \<and> ok resp \<and>
         body_json resp = Inr (JObj data) \<and> in_progress data)) \<and>
   (is_set (BLAND_API_KEY w) \<and> fst (stored_transcript w cid u) = None \<and>
    fst (corrected_transcript w cid u) = None \<and>
    requests_get w (bland_url cid) = Inr resp \<and> ok resp \<and> body_json resp = Inr (JObj data) \<and>
    \<not> truthy (dict_get data ''transcript_aligned'' JNull) \<and>
    (\<not> truthy (dict_get data ''transcript'' JNull) \<or>
       (\<exists>improved. improve_transcript_readability (punctuation_model w)
                      (dict_get data ''transcript'' JNull) = Inr improved \<and>
                    align_text improved = Inr [])) \<and>
    in_progress data
    \<longrightarrow> fst (get_call_transcript w cid u) = Pending pending_message)"
proof (intro conjI impI)
  show "case fst (get_call_transcript w cid u) of
      Success t a \<Rightarrow> True
    | Pending m \<Rightarrow> m = pending_message
    | Unavailable m \<Rightarrow> m = unavailable_message
    | HTTPError code detail \<Rightarrow> code = 500"
    using get_call_transcript_kind [of w cid u] by (simp add: one_of_four_def)
  show "\<forall>m. fst (get_call_transcript w cid u) = Pending m \<longrightarrow>
      (\<exists>resp data. requests_get w (bland_url cid) = Inr resp \<and> ok resp \<and>
         body_json resp = Inr (JObj data) \<and> in_progress data)"
    using get_call_transcript_kind [of w cid u] by blast
next
  assume a: "is_set (BLAND_API_KEY w) \<and> fst (stored_transcript w cid u) = None \<and>
    fst (corrected_transcript w cid u) = None \<and>
    requests_get w (bland_url cid) = Inr resp \<and> ok resp \<and> body_json resp = Inr (JObj data) \<and>
    \<not> truthy (dict_get data ''transcript_aligned'' JNull) \<and>
    (\<not> truthy (dict_get data ''transcript'' JNull) \<or>
       (\<exists>improved. improve_transcript_readability (punctuation_model w)
                      (dict_get data ''transcript'' JNull) = Inr improved \<and>
                    align_text improved = Inr [])) \<and>
    in_progress data"
  then have "resolve_detail w u (JObj data) = Inr (Pending pending_message, [])"
    by (intro resolve_detail_pending) blast+
  with a have "fst (regular_transcript w cid u) = Pending pending_message"
    by (simp add: regular_transcript_def)
  moreover from a have "fst (get_call_transcript w cid u) = fst (regular_transcript w cid u)"
    by (intro get_call_transcript_from_regular) blast+
  ultimately show "fst (get_call_transcript w cid u) = Pending pending_message" by simp
qed

theorem transcript_outcomes_witness:
  "fst (get_call_transcript pending_world ''c1'' None) = Pending pending_message \<and>
   in_progress [(''status'', JStr ''in-progress'')] \<and>
   fst (stored_transcript pending_world ''c1'' None) = None \<and>
   fst (corrected_transcript pending_world ''c1'' None) = None"
  using transcript_outcomes
    [where w = pending_world and cid = "''c1''" and u = None
       and resp = "json_response (JObj [(''status'', JStr ''in-progress'')])"
       and data = "[(''status'', JStr ''in-progress'')]"]
  by (simp add: pending_world_def base_world_def is_set_def stored_transcript_def
      corrected_transcript_def unreachable_def corrected_url_def bland_url_def json_response_def
      ok_def in_progress_def dict_get_def)

text \<open>
  The claim as stated fails: with the provider unreachable, and with the provider key
  unset, the answer is an HTTP 500 error, which is none of the three.
\<close>

theorem transcript_outcomes_counterexample:
  "fst (get_call_transcript base_world ''c1'' None) =
     HTTPError 500 ''Error getting call transcript: <exception>'' \<and>
   fst (get_call_transcript (base_world\<lparr>BLAND_API_KEY := None\<rparr>) ''c1'' None) =
     HTTPError 500 ''BLAND_API_KEY not set in environment.''"
  by (simp add: get_call_transcript_def stored_transcript_def corrected_transcript_def
      regular_transcript_def transcript_error_def base_world_def is_set_def unreachable_def)

section \<open>The stored transcript\<close>

lemma written_append: "written (xs @ ys) = written xs @ written ys"
  by (induction xs rule: written.induct) auto

lemma store_selects_append: "store_selects (xs @ ys) = store_selects xs @ store_selects ys"
  by (induction xs rule: store_selects.induct) auto

lemma apply_events_unwritten: "written evs = [] \<Longrightarrow> apply_events evs tbl = tbl"
  unfolding apply_events_def
  by (induction evs arbitrary: tbl rule: written.induct) auto

lemma apply_events_append:
  "apply_events (xs @ ys) tbl = apply_events ys (apply_events xs tbl)"
  by (simp add: apply_events_def)

lemma save_transcript_written:
  "written (save_transcript w u StoreUpsert key flat a) =
     (case u of
        None \<Rightarrow> []
      | Some x \<Rightarrow>
          if supabase w \<and> x \<noteq> [] then
            [\<lparr>row_call_id = key, row_user_id = x, row_transcript = flat,
              row_aligned_transcript = json_dumps w a\<rparr>]
          else [])"
  "written (save_transcript w u StoreInsert key flat a) =
     (case u of
        None \<Rightarrow> []
      | Some x \<Rightarrow>
          if supabase w \<and> x \<noteq> [] then
            [\<lparr>row_call_id = key, row_user_id = x, row_transcript = flat,
              row_aligned_transcript = json_dumps w a\<rparr>]
          else [])"
  "store_selects (save_transcript w u StoreUpsert key flat a) = []"
  "store_selects (save_transcript w u StoreInsert key flat a) = []"
  by (auto simp: save_transcript_def split: option.splits)

lemma save_transcript_applied:
  assumes "\<forall>r \<in> set tbl. row_call_id r \<noteq> key" and "supabase w" and "x \<noteq> []"
  shows "apply_events (save_transcript w (Some x) StoreUpsert key flat a) tbl =
           tbl @ [\<lparr>row_call_id = key, row_user_id = x, row_transcript = flat,
                    row_aligned_transcript = json_dumps w a\<rparr>]"
    and "apply_events (save_transcript w (Some x) StoreInsert key flat a) tbl =
           tbl @ [\<lparr>row_call_id = key, row_user_id = x, row_transcript = flat,
                    row_aligned_transcript = json_dumps w a\<rparr>]"
  using assms by (auto simp: save_transcript_def apply_events_def)

lemma lookup_single_fresh:
  assumes "\<forall>r \<in> set tbl. row_call_id r \<noteq> JStr k" and "row_call_id r = JStr k"
  shows "lookup_single (tbl @ [r]) k = Inr (JObj (row_dict r))"
proof -
  from assms(1) have "filter (\<lambda>r. row_call_id r = JStr k) tbl = []"
    by (simp add: filter_empty_conv)
  with assms(2) show ?thesis by (simp add: lookup_single_def)
qed


lemma stored_transcript_lookup:
  "stored_transcript w cid u = (r0, evs0) \<Longrightarrow>
     evs0 = (if supabase w \<and> is_set u then [StoreSelect cid] else [])"
  by (auto simp: stored_transcript_def split: if_splits)

lemma live_transcript_events:
  assumes run: "get_call_transcript w cid u = (Success t a, evs)"
      and live: "provider_gets evs \<noteq> []"
  shows "\<exists>gets write key flat.
           t = JStr flat \<and>
           evs = (if supabase w \<and> is_set u then [StoreSelect cid] else []) @ gets @
                 save_transcript w u write key flat a \<and>
           written gets = [] \<and> store_selects gets = [] \<and>
           (write = StoreUpsert \<or> write = StoreInsert)"
proof -
  from run have key: "is_set (BLAND_API_KEY w)"
    by (auto simp: get_call_transcript_def split: if_splits)
  obtain r0 evs0 where st: "stored_transcript w cid u = (r0, evs0)"
    by (cases "stored_transcript w cid u") auto
  note ev0 = stored_transcript_lookup [OF st]
  show ?thesis
  proof (cases r0)
    case (Some out)
    with run key st have "evs = evs0" by (simp add: get_call_transcript_def)
    with stored_transcript_events [OF st] live show ?thesis by simp
  next
    case None
    from corrected_transcript_cases [of w cid u] show ?thesis
    proof (elim disjE exE conjE)
      assume c: "corrected_transcript w cid u = (None, [ProviderGet (corrected_url cid)])"
      obtain out3 evs3 where reg: "regular_transcript w cid u = (out3, evs3)"
        by (cases "regular_transcript w cid u") auto
      from run key st None c reg
      have out3: "out3 = Success t a" and evs: "evs = evs0 @ [ProviderGet (corrected_url cid)] @ evs3"
        by (simp_all add: get_call_transcript_def)
      from regular_transcript_success [OF reg [unfolded out3]] obtain resp v evs' where
        r: "resolve_detail w u v = Inr (Success t a, evs')" "evs3 = ProviderGet (bland_url cid) # evs'"
        by blast
      from resolve_detail_success [OF r(1)] obtain data flat where
        d: "t = JStr flat"
           "evs' = save_transcript w u StoreInsert (dict_get data ''call_id'' JNull) flat a"
        by blast
      have "evs = (if supabase w \<and> is_set u then [StoreSelect cid] else []) @
                  [ProviderGet (corrected_url cid), ProviderGet (bland_url cid)] @
                  save_transcript w u StoreInsert (dict_get data ''call_id'' JNull) flat a"
        using evs r(2) d(2) ev0 by simp
      with d(1) show ?thesis
        by (intro exI [of _ "[ProviderGet (corrected_url cid), ProviderGet (bland_url cid)]"]
                  exI [of _ StoreInsert] exI [of _ "dict_get data ''call_id'' JNull"]
                  exI [of _ flat]) simp
    next
      fix resp cd a' segs ct
      assume c: "corrected_transcript w cid u =
           (Some (Success (JStr ct) a'),
            ProviderGet (corrected_url cid) # save_transcript w u StoreUpsert (JStr cid) ct a')"
      from run key st None c
      have "t = JStr ct" "a = a'"
        "evs = evs0 @ ProviderGet (corrected_url cid) # save_transcript w u StoreUpsert (JStr cid) ct a'"
        by (auto simp add: get_call_transcript_def)
      with ev0 show ?thesis
        by (intro exI [of _ "[ProviderGet (corrected_url cid)]"] exI [of _ StoreUpsert]
                  exI [of _ "JStr cid"] exI [of _ ct]) simp
    qed
  qed
qed

lemma stored_row_served:
  assumes "is_set (BLAND_API_KEY w)" and "supabase w" and "is_set u"
      and "select_transcript w cid = Inr (JObj row)" and "row \<noteq> []"
      and "(if truthy (dict_get row ''aligned_transcript'' JNull)
            then loads_value w (dict_get row ''aligned_transcript'' JNull)
            else Inr JNull) = Inr aligned"
  shows "get_call_transcript w cid u =
          (Success (dict_get row ''transcript'' JNull) aligned, [StoreSelect cid])"
  using assms by (auto simp: get_call_transcript_def stored_transcript_def split: if_splits)

lemma no_store_without_user:
  assumes "is_set (BLAND_API_KEY w)" and "\<not> (supabase w \<and> is_set u)"
  shows "take 1 (snd (get_call_transcript w cid u)) = [ProviderGet (corrected_url cid)] \<and>
         store_selects (snd (get_call_transcript w cid u)) = [] \<and>
         written (snd (get_call_transcript w cid u)) = []"
proof -
  from assms have st: "stored_transcript w cid u = (None, [])"
    by (auto simp: stored_transcript_def)
  from assms(2) have save: "save_transcript w u wr key flat a = []" for wr key flat a
    by (auto simp: save_transcript_def is_set_def split: option.splits)
  obtain r1 evs1 where co: "corrected_transcript w cid u = (r1, evs1)"
    by (cases "corrected_transcript w cid u")
  from co corrected_transcript_cases [of w cid u]
  have e1: "evs1 = [ProviderGet (corrected_url cid)]" by (auto simp: save)
  show ?thesis
  proof (cases r1)
    case (Some out)
    with assms(1) st co e1 show ?thesis by (simp add: get_call_transcript_def)
  next
    case None
    have e3: "snd (regular_transcript w cid u) = [ProviderGet (bland_url cid)]"
    proof (cases "fst (regular_transcript w cid u)")
      case (Success t a)
      then have "regular_transcript w cid u = (Success t a, snd (regular_transcript w cid u))"
        by (cases "regular_transcript w cid u") simp
      from regular_transcript_success [OF this] obtain v evs' where
        r: "resolve_detail w u v = Inr (Success t a, evs')"
           "snd (regular_transcript w cid u) = ProviderGet (bland_url cid) # evs'"
        by blast
      from resolve_detail_success [OF r(1)] have "evs' = []" by (auto simp: save)
      with r(2) show ?thesis by simp
    next
      case (Pending m)
      then show ?thesis
        unfolding regular_transcript_def resolve_detail_def transcript_error_def
        by (auto split: sum.splits if_splits json.splits prod.splits simp: save)
    next
      case (Unavailable m)
      then show ?thesis
        unfolding regular_transcript_def resolve_detail_def transcript_error_def
        by (auto split: sum.splits if_splits json.splits prod.splits simp: save)
    next
      case (HTTPError c d)
      then show ?thesis
        unfolding regular_transcript_def resolve_detail_def transcript_error_def
        by (auto split: sum.splits if_splits json.splits prod.splits simp: save)
    qed
    obtain out3 where re: "regular_transcript w cid u = (out3, [ProviderGet (bland_url cid)])"
      using e3 by (cases "regular_transcript w cid u") simp
    from assms(1) st co e1 None re show ?thesis by (simp add: get_call_transcript_def)
  qed
qed


lemma persisted_then_served:
  assumes run: "get_call_transcript (with_table w tbl) cid u1 = (Success t a, evs)"
      and live: "provider_gets evs \<noteq> []"
      and sb: "supabase w" and u1: "is_set u1" and u2: "is_set u2"
      and keyed: "map row_call_id (written evs) = [JStr k]"
      and fresh: "\<forall>r \<in> set tbl. row_call_id r \<noteq> JStr k"
      and rt: "json_loads w (json_dumps w a) = Inr a" and ne: "json_dumps w a \<noteq> []"
  shows "get_call_transcript (with_table w (apply_events evs tbl)) k u2 =
           (Success t a, [StoreSelect k])"
proof -
  from u1 obtain x where x: "u1 = Some x" "x \<noteq> []"
    by (auto simp: is_set_def split: option.splits)
  from run have key: "is_set (BLAND_API_KEY w)"
    by (auto simp: get_call_transcript_def with_table_def split: if_splits)
  from live_transcript_events [OF run live] obtain gets wr key flat where
    e: "t = JStr flat"
       "evs = (if supabase (with_table w tbl) \<and> is_set u1 then [StoreSelect cid] else []) @ gets @
              save_transcript (with_table w tbl) u1 wr key flat a"
       "written gets = []" "wr = StoreUpsert \<or> wr = StoreInsert"
    by blast
  let ?row = "\<lparr>row_call_id = key, row_user_id = x, row_transcript = flat,
               row_aligned_transcript = json_dumps w a\<rparr>"
  have wr: "written (save_transcript (with_table w tbl) u1 wr key flat a) = [?row]"
    using e(4) sb x by (auto simp: save_transcript_written with_table_def)
  have "written evs = [?row]"
    using e(2,3) wr by (simp add: written_append)
  with keyed have k: "key = JStr k" by simp
  have "apply_events evs tbl =
          apply_events (save_transcript (with_table w tbl) u1 wr key flat a) tbl"
    using e(2,3) by (simp add: apply_events_append apply_events_unwritten)
  also have "\<dots> = tbl @ [?row]"
    using e(4) save_transcript_applied [of tbl key "with_table w tbl" x flat a] fresh sb x k
    by (auto simp: with_table_def)
  finally have tbl': "apply_events evs tbl = tbl @ [?row]" .
  have look: "select_transcript (with_table w (tbl @ [?row])) k = Inr (JObj (row_dict ?row))"
    using lookup_single_fresh [of tbl k ?row] fresh k by (simp add: with_table_def)
  have "get_call_transcript (with_table w (tbl @ [?row])) k u2 =
          (Success (dict_get (row_dict ?row) ''transcript'' JNull) a, [StoreSelect k])"
    using key sb u2 look rt ne
    by (intro stored_row_served)
       (simp_all add: with_table_def row_dict_def dict_get_def loads_value_def)
  then show ?thesis
    using e(1) tbl' by (simp add: row_dict_def dict_get_def)
qed

text \<open>
  C4, as the code has it. (1) When the provider key is set, a database client exists and
  the request carries a non-empty user id (any user id: the lookup is by call id alone),
  and the lookup returns a non-empty row whose \<open>aligned_transcript\<close> is empty or parses,
  the handler returns the row's transcript and the parsed sequence and does nothing but
  that one lookup: no request to the provider. (2) A request without a user id, or a
  process without a database client, never reads and never writes the store: its first
  action is the request to the corrected endpoint. (3) Persisted, then served: when a
  request with a user id resolved a transcript from a live source and wrote it under the
  call id \<open>k\<close>, into a table that held no row for \<open>k\<close>, and \<open>json.loads\<close> gives back what
  \<open>json.dumps\<close> was given, then on the table as that run left it every request for \<open>k\<close>
  with a user id, whichever it is, gets the same transcript and the same sequence, and
  makes the lookup and nothing else.
\<close>

theorem stored_transcript_served:
  "(is_set (BLAND_API_KEY w) \<and> supabase w \<and> is_set u \<and>
    select_transcript w cid = Inr (JObj row) \<and> row \<noteq> [] \<and>
    (if truthy (dict_get row ''aligned_transcript'' JNull)
     then loads_value w (dict_get row ''aligned_transcript'' JNull)
     else Inr JNull) = Inr aligned
    \<longrightarrow> get_call_transcript w cid u =
          (Success (dict_get row ''transcript'' JNull) aligned, [StoreSelect cid])) \<and>
   (is_set (BLAND_API_KEY w) \<and> \<not> (supabase w \<and> is_set u)
    \<longrightarrow> take 1 (snd (get_call_transcript w cid u)) = [ProviderGet (corrected_url cid)] \<and>
        store_selects (snd (get_call_transcript w cid u)) = [] \<and>
        written (snd (get_call_transcript w cid u)) = []) \<and>
   (get_call_transcript (with_table w tbl) cid u1 = (Success t a, evs) \<and>
    provider_gets evs \<noteq> [] \<and> supabase w \<and> is_set u1 \<and> is_set u2 \<and>
    map row_call_id (written evs) = [JStr k] \<and>
    (\<forall>r \<in> set tbl. row_call_id r \<noteq> JStr k) \<and>
    json_loads w (json_dumps w a) = Inr a \<and> json_dumps w a \<noteq> []
    \<longrightarrow> get_call_transcript (with_table w (apply_events evs tbl)) k u2 =
          (Success t a, [StoreSelect k]))"
proof (intro conjI impI)
  assume a: "is_set (BLAND_API_KEY w) \<and> supabase w \<and> is_set u \<and>
    select_transcript w cid = Inr (JObj row) \<and> row \<noteq> [] \<and>
    (if truthy (dict_get row ''aligned_transcript'' JNull)
     then loads_value w (dict_get row ''aligned_transcript'' JNull)
     else Inr JNull) = Inr aligned"
  show "get_call_transcript w cid u =
          (Success (dict_get row ''transcript'' JNull) aligned, [StoreSelect cid])"
    by (rule stored_row_served) (use a in blast)+
next
  assume a: "is_set (BLAND_API_KEY w) \<and> \<not> (supabase w \<and> is_set u)"
  then have k: "is_set (BLAND_API_KEY w)" and n: "\<not> (supabase w \<and> is_set u)" by blast+
  from no_store_without_user [OF k n, of cid]
  show "take 1 (snd (get_call_transcript w cid u)) = [ProviderGet (corrected_url cid)]"
    and "store_selects (snd (get_call_transcript w cid u)) = []"
    and "written (snd (get_call_transcript w cid u)) = []"
    by blast+
next
  assume a: "get_call_transcript (with_table w tbl) cid u1 = (Success t a, evs) \<and>
    provider_gets evs \<noteq> [] \<and> supabase w \<and> is_set u1 \<and> is_set u2 \<and>
    map row_call_id (written evs) = [JStr k] \<and>
    (\<forall>r \<in> set tbl. row_call_id r \<noteq> JStr k) \<and>
    json_loads w (json_dumps w a) = Inr a \<and> json_dumps w a \<noteq> []"
  show "get_call_transcript (with_table w (apply_events evs tbl)) k u2 =
          (Success t a, [StoreSelect k])"
    by (rule persisted_then_served [where cid = cid and ?u1.0 = u1]) (use a in blast)+
qed

theorem stored_transcript_served_witness:
  "get_call_transcript (with_table roundtrip_world []) ''c1'' (Some ''u1'') =
     (Success (JStr hello_flat) (JArr (map utterance_json hello_utterances)), hello_events) \<and>
   apply_events hello_events [] = [hello_row] \<and>
   get_call_transcript (with_table roundtrip_world (apply_events hello_events [])) ''c1''
     (Some ''someone else'') =
     (Success (JStr hello_flat) (JArr (map utterance_json hello_utterances)), [StoreSelect ''c1'']) \<and>
   get_call_transcript stored_world ''c1'' (Some ''u1'') =
     (Success (JStr hello_flat) (JArr (map utterance_json hello_utterances)), [StoreSelect ''c1'']) \<and>
   store_selects (snd (get_call_transcript stored_world ''c1'' None)) = [] \<and>
   take 1 (snd (get_call_transcript stored_world ''c1'' None)) = [ProviderGet (corrected_url ''c1'')]"
proof -
  have run: "get_call_transcript (with_table roundtrip_world []) ''c1'' (Some ''u1'') =
     (Success (JStr hello_flat) (JArr (map utterance_json hello_utterances)), hello_events)"
    by (simp add: get_call_transcript_def stored_transcript_def corrected_transcript_def
        regular_transcript_def resolve_detail_def with_table_def lookup_single_def
        roundtrip_world_def aligned_world_def base_world_def is_set_def
        unreachable_def corrected_url_def bland_url_def json_response_def ok_def dict_get_def
        hello_segments_def segment_def py_strip_def py_isspace_def save_transcript_def
        utterance_json_def hello_flat_def hello_utterances_def hello_events_def NL_def)
  have tbl: "apply_events hello_events [] = [hello_row]"
    by (simp add: apply_events_def hello_events_def hello_row_def)
  have served: "get_call_transcript (with_table roundtrip_world (apply_events hello_events [])) ''c1''
     (Some ''someone else'') =
     (Success (JStr hello_flat) (JArr (map utterance_json hello_utterances)), [StoreSelect ''c1''])"
    using stored_transcript_served
      [where w = roundtrip_world and tbl = "[]" and cid = "''c1''" and ?u1.0 = "Some ''u1''"
         and ?u2.0 = "Some ''someone else''" and k = "''c1''" and evs = hello_events
         and t = "JStr hello_flat" and a = "JArr (map utterance_json hello_utterances)"
         and u = None and row = stored_row_c1]
      run
    by (simp add: hello_events_def roundtrip_world_def aligned_world_def base_world_def is_set_def)
  have rest: "get_call_transcript stored_world ''c1'' (Some ''u1'') =
     (Success (JStr hello_flat) (JArr (map utterance_json hello_utterances)), [StoreSelect ''c1'']) \<and>
   store_selects (snd (get_call_transcript stored_world ''c1'' None)) = [] \<and>
   take 1 (snd (get_call_transcript stored_world ''c1'' None)) = [ProviderGet (corrected_url ''c1'')]"
    using stored_transcript_served
      [where w = stored_world and cid = "''c1''" and u = "Some ''u1''" and row = stored_row_c1
         and aligned = "JArr (map utterance_json hello_utterances)"]
      stored_transcript_served
      [where w = stored_world and cid = "''c1''" and u = None and row = stored_row_c1
         and aligned = "JArr (map utterance_json hello_utterances)"]
    by (simp add: stored_world_def base_world_def is_set_def stored_row_c1_def dict_get_def
        loads_value_def)
  from run tbl served rest show ?thesis by (intro conjI) simp_all
qed

text \<open>
  The claim as stated fails for a requester without a user id: the row stored for the call
  is not read, both provider endpoints are contacted, and here (the provider unreachable)
  the answer is an error.
\<close>

theorem stored_transcript_counterexample:
  "select_transcript stored_world ''c1'' = Inr (JObj stored_row_c1) \<and>
   get_call_transcript stored_world ''c1'' None =
     (HTTPError 500 ''Error getting call transcript: <exception>'',
      [ProviderGet (corrected_url ''c1''), ProviderGet (bland_url ''c1'')])"
  by (simp add: get_call_transcript_def stored_transcript_def corrected_transcript_def
      regular_transcript_def transcript_error_def stored_world_def base_world_def is_set_def
      unreachable_def)

section \<open>Admission of calls and SMS\<close>

lemma place_call_events:
  "ModerationPost p t \<notin> set (snd (snd (place_call w req h)))"
  unfolding place_call_def
  by (auto split: sum.splits option.splits)

lemma place_call_ignores_moderation:
  "place_call (w\<lparr>GEMINI_API_KEY := g, post_moderation := f\<rparr>) req h = place_call w req h"
  unfolding place_call_def call_error_def
  by (simp split: sum.splits option.splits)

text \<open>
  C3, as the code has it. With the provider key set: a guest request (no user id, admin not
  true) that moderation allows, for a phone number whose history holds ten or more
  successful call records (the code reads them as the records with status success), is
  answered with the limit message, the history unchanged and no request sent to the
  provider. A request with admin true goes straight to the provider:
  the handler does what \<open>place_call\<close> does, its result does not depend on the moderation
  service or its key, and it makes no moderation request; when the provider accepts the
  call the answer reports calls_left as unlimited.
\<close>

theorem call_admission_at_quota:
  "(is_set (BLAND_API_KEY w) \<and> call_admin req \<noteq> Some True \<and> \<not> is_set (call_user_id req) \<and>
    10 \<le> current_calls (records_of h (call_phone_number req)) \<and>
    py_item (fst (moderate_call w (call_topic req) (call_phone_number req))) ''allowed'' = Inr allowed \<and>
    truthy allowed
    \<longrightarrow> trigger_call w req h =
          (Message ''You have reached the maximum number of calls.'', h,
           snd (moderate_call w (call_topic req) (call_phone_number req)))) \<and>
   (is_set (BLAND_API_KEY w) \<and> call_admin req = Some True
    \<longrightarrow> trigger_call w req h = place_call w req h \<and>
        trigger_call (w\<lparr>GEMINI_API_KEY := g, post_moderation := f\<rparr>) req h = trigger_call w req h \<and>
        (\<forall>p t. ModerationPost p t \<notin> set (snd (snd (trigger_call w req h))))) \<and>
   (is_set (BLAND_API_KEY w) \<and> call_admin req = Some True \<and>
    post_call w (call_phone_number req) (call_topic req) = Inr resp \<and> ok resp \<and>
    body_json resp = Inr (JObj data)
    \<longrightarrow> fst (trigger_call w req h) = Triggered (dict_get data ''call_id'' JNull) Unlimited)"
proof (intro conjI impI allI)
  assume a: "is_set (BLAND_API_KEY w) \<and> call_admin req \<noteq> Some True \<and> \<not> is_set (call_user_id req) \<and>
    10 \<le> current_calls (records_of h (call_phone_number req)) \<and>
    py_item (fst (moderate_call w (call_topic req) (call_phone_number req))) ''allowed'' = Inr allowed \<and>
    truthy allowed"
  then have "calls_left req h \<le> 0"
    by (simp add: calls_left_def max_calls_def MAX_CALLS_PER_GUEST_def)
  with a show "trigger_call w req h =
          (Message ''You have reached the maximum number of calls.'', h,
           snd (moderate_call w (call_topic req) (call_phone_number req)))"
    by (cases "moderate_call w (call_topic req) (call_phone_number req)")
       (simp add: trigger_call_def admit_call_def)
next
  assume a: "is_set (BLAND_API_KEY w) \<and> call_admin req = Some True"
  then show eq: "trigger_call w req h = place_call w req h"
    by (simp add: trigger_call_def admit_call_def)
  from a show "trigger_call (w\<lparr>GEMINI_API_KEY := g, post_moderation := f\<rparr>) req h = trigger_call w req h"
    by (simp add: trigger_call_def admit_call_def place_call_ignores_moderation)
  fix p t
  show "ModerationPost p t \<notin> set (snd (snd (trigger_call w req h)))"
    unfolding eq by (rule place_call_events)
next
  assume a: "is_set (BLAND_API_KEY w) \<and> call_admin req = Some True \<and>
    post_call w (call_phone_number req) (call_topic req) = Inr resp \<and> ok resp \<and>
    body_json resp = Inr (JObj data)"
  then show "fst (trigger_call w req h) = Triggered (dict_get data ''call_id'' JNull) Unlimited"
    by (simp add: trigger_call_def admit_call_def place_call_def and_then_def)
qed

theorem call_admission_at_quota_witness:
  "current_calls (records_of ten_calls ''+15550100'') = 10 \<and>
   fst (trigger_call call_world (guest_call ''+15550100'') ten_calls) =
     Message ''You have reached the maximum number of calls.'' \<and>
   fst (trigger_call call_world (admin_call ''+15550100'') ten_calls) =
     Triggered (JStr ''c1'') Unlimited \<and>
   snd (snd (trigger_call call_world (admin_call ''+15550100'') ten_calls)) =
     [CallPost ''+15550100'' ''hello'']"
  using call_admission_at_quota
    [where w = call_world and req = "guest_call ''+15550100''" and h = ten_calls
       and allowed = "JBool True"
       and resp = "json_response (JObj [(''call_id'', JStr ''c1'')])"
       and data = "[(''call_id'', JStr ''c1'')]"]
    call_admission_at_quota
    [where w = call_world and req = "admin_call ''+15550100''" and h = ten_calls
       and allowed = "JBool True"
       and resp = "json_response (JObj [(''call_id'', JStr ''c1'')])"
       and data = "[(''call_id'', JStr ''c1'')]"]
  by (simp add: call_world_def base_world_def guest_call_def admin_call_def ten_calls_def
      call_success_def is_set_def current_calls_def records_of_def moderate_call_def
      emergency_numbers_def endswith_def verdict_def json_response_def ok_def dict_get_def
      place_call_def and_then_def)

text \<open>
  The claim as stated fails: a guest calling a number that ends in 911 is turned away by
  moderation, with the moderation message, before the quota is looked at; and an admin whose
  request the provider does not answer gets an HTTP 500 error, not a count of calls left.
\<close>

theorem call_admission_counterexample:
  "current_calls (records_of ten_calls ''911'') = 10 \<and>
   fst (trigger_call call_world (guest_call ''911'') ten_calls) =
     Message ''Call topic or phone number rejected by moderation: Emergency services number detected'' \<and>
   fst (trigger_call base_world (admin_call ''+15550100'') ten_calls) =
     CallHTTPError 500 ''Error calling Bland.ai: <exception>''"
  by (simp add: trigger_call_def admit_call_def place_call_def call_error_def call_world_def
      base_world_def guest_call_def admin_call_def ten_calls_def call_success_def is_set_def
      current_calls_def records_of_def moderate_call_def emergency_numbers_def endswith_def
      verdict_def fstr_def unreachable_def)

text \<open>
  C1. What the code does where the claim says otherwise. After one successful SMS to a
  number and no call at all, a guest's call to that number reports 9 calls left, not 10:
  the SMS record has status success and is counted as a call. After two SMS attempts that
  the gateway refused, a guest's third attempt is turned away as over the limit of 3: each
  refused attempt left two records of type sms (status error and status exception), and
  every record of type sms is counted as an SMS sent.
\<close>

theorem quota_counts_other_records:
  "fst (trigger_call call_world (guest_call ''+15550100'')
          (fst (snd (send_sms call_world guest_sms Map.empty)))) =
     Triggered (JStr ''c1'') (Left 9) \<and>
   fst (send_sms failing_sms_world guest_sms
          (fst (snd (send_sms failing_sms_world guest_sms
             (fst (snd (send_sms failing_sms_world guest_sms Map.empty))))))) =
     SmsMessage ''You have reached the maximum number of SMS messages (3).''"
  by (simp add: trigger_call_def admit_call_def place_call_def send_sms_def deliver_sms_def
      sms_exception_def sms_record_def append_record_def records_of_def calls_left_def
      max_calls_def current_calls_def sms_sent_count_def max_sms_def MAX_CALLS_PER_GUEST_def
      call_world_def failing_sms_world_def base_world_def guest_call_def guest_sms_def is_set_def
      moderate_call_def emergency_numbers_def endswith_def verdict_def json_response_def ok_def
      dict_get_def and_then_def fstr_def Let_def)

section \<open>Moderation failures\<close>

text \<open>
  Where \<open>moderate_call\<close> does fail open: for a number that is no emergency number and with
  the moderation key set, it allows the call when the request raises, the status is not
  200, the body is no JSON, the text cannot be reached or is no string, the text holds no
  braces on one line, or what is between the braces does not parse.
\<close>

lemma moderation_fails_open:
  assumes "phone = [] \<or> \<not> (\<exists>num \<in> set emergency_numbers. endswith phone num)"
      and "is_set (GEMINI_API_KEY w)"
      and "(\<exists>e. post_moderation w phone t = Inl e) \<or>
           (\<exists>resp. post_moderation w phone t = Inr resp \<and>
              (status_code resp \<noteq> 200 \<or>
               (\<exists>e. body_json resp = Inl e) \<or>
               (\<exists>result. body_json resp = Inr result \<and>
                  ((\<exists>e. moderation_text result = Inl e) \<or>
                   (\<exists>v. moderation_text result = Inr v \<and> (\<forall>s. v \<noteq> JStr s)) \<or>
                   (\<exists>s. moderation_text result = Inr (JStr s) \<and>
                      (search_braces s = None \<or>
                       (\<exists>m e. search_braces s = Some m \<and> json_loads w m = Inl e)))))))"
  shows "\<exists>reason. fst (moderate_call w t phone) = verdict True reason"
  using assms unfolding moderate_call_def moderation_error_def
  by (auto split: sum.splits json.splits option.splits)

text \<open>
  C9. What the code does where the claim says otherwise. The moderation service answers
  200 with the text \<open>Sure: {}\<close>; the braces parse as the empty dictionary, which is not of
  the shape \<open>{allowed, reason}\<close>. \<open>moderate_call\<close> returns that dictionary, not an allowing
  verdict, and \<open>trigger_call\<close> ends the guest's request with a KeyError.
\<close>

theorem moderation_wrong_shape:
  "fst (moderate_call junk_world ''hello'' ''+15550100'') = JObj [] \<and>
   py_item (fst (moderate_call junk_world ''hello'' ''+15550100'')) ''allowed'' = Inl KeyError \<and>
   fst (trigger_call junk_world (guest_call ''+15550100'') Map.empty) = Unhandled KeyError"
  by (simp add: trigger_call_def moderate_call_def moderation_text_def and_then_def junk_world_def
      call_world_def base_world_def gemini_text_def guest_call_def is_set_def emergency_numbers_def
      endswith_def json_response_def dict_get_def NL_def)

section \<open>The two transcript endpoints agree\<close>

lemma stored_row_eq:
  "stored_transcript w call_id u =
     ((case stored_row w call_id u of Inr (Some out) \<Rightarrow> Some out | _ \<Rightarrow> None),
      (if supabase w \<and> is_set u then [StoreSelect call_id] else []))"
  unfolding stored_transcript_def stored_row_def and_then_def as_dict_def
  by (simp split: sum.splits json.splits)

lemma corrected_segments_eq:
  "corrected_transcript w call_id u =
     (case corrected_segments w call_id of
        Inr (Some (ct, aligned)) \<Rightarrow>
          (Some (Success (JStr ct) aligned),
           ProviderGet (corrected_url call_id) #
           save_transcript w u StoreUpsert (JStr call_id) ct aligned)
      | _ \<Rightarrow> (None, [ProviderGet (corrected_url call_id)]))"
  unfolding corrected_transcript_def corrected_segments_def and_then_def
  by (simp split: sum.splits)

lemma call_detail_eq:
  "regular_transcript w call_id u =
     (case call_detail w call_id u of
        Inl e \<Rightarrow> (HTTPError 500 (''Error getting call transcript: '' @ str_exn w e),
                  [ProviderGet (bland_url call_id)])
      | Inr (out, evs) \<Rightarrow> (out, ProviderGet (bland_url call_id) # evs))"
proof (cases "requests_get w (bland_url call_id)")
  case (Inl e)
  then show ?thesis
    by (simp add: regular_transcript_def call_detail_def transcript_error_def and_then_def)
next
  case (Inr resp)
  show ?thesis
  proof (cases "body_json resp")
    case (Inl e)
    with Inr show ?thesis
      by (simp add: regular_transcript_def call_detail_def transcript_error_def and_then_def)
  next
    case v: (Inr v)
    with Inr show ?thesis
      unfolding regular_transcript_def call_detail_def resolve_detail_def
        pending_or_unavailable_def transcript_error_def and_then_def as_dict_def
      by (cases v) (simp_all split: sum.splits prod.splits)
  qed
qed

text \<open>
  C10. \<open>get_call_transcript\<close> (lines 345-503) and \<open>get_call_corrected_transcript\<close>
  (lines 699-857) are the same function of the world, the call id and the user id: they
  return the same outcome and make the same requests and the same database reads and
  writes, in the same order.
\<close>

theorem transcript_endpoints_equivalent:
  "get_call_corrected_transcript w call_id u = get_call_transcript w call_id u"
  unfolding get_call_corrected_transcript_def get_call_transcript_def
    stored_row_eq corrected_segments_eq call_detail_eq Let_def
  by (simp split: sum.splits option.splits prod.splits)

end
